theory Spec2Isabelle
  imports Main "HOL-Library.Sublist" "HOL-Library.Word"
begin

section \<open>The faucet's admission layer: rate limiter and captcha gate\<close>

text \<open>
  A shallow embedding of the Go package \<open>server\<close>: \<open>Limiter.ServeHTTP\<close>,
  \<open>Limiter.limitByKey\<close>, \<open>getClientIPFromRequest\<close> and \<open>Captcha.ServeHTTP\<close>.
  Go strings are byte sequences, here \<^typ>\<open>string\<close>. Go's \<open>int\<close> and
  \<open>time.Duration\<close> are \<^typ>\<open>int\<close> (no arithmetic of the package can overflow,
  apart from the rounding of a duration, where the saturation is written out); the
  ledger's sequence number is a \<open>uint64\<close>, here \<^typ>\<open>64 word\<close>.
\<close>

subsection \<open>Standard library: strings\<close>

text \<open>
  \<open>strings.Split(s, ",")\<close>: the substrings between the separators, one more than there
  are separators, so never an empty list.
\<close>

fun Split :: "string \<Rightarrow> char \<Rightarrow> string list" where
  "Split [] sep = [[]]"
| "Split (c # cs) sep =
     (if c = sep then [] # Split cs sep
      else (case Split cs sep of [] \<Rightarrow> [[c]] | p # ps \<Rightarrow> (c # p) # ps))"

text \<open>
  \<open>strings.TrimSpace\<close> removes leading and trailing white space as Unicode defines it
  (\<open>unicode.IsSpace\<close>). A string is UTF-8, so a white-space rune is one of the byte
  sequences below: the six ASCII ones, U+0085, U+00A0, U+1680, U+2000 to U+200A, U+2028,
  U+2029, U+202F, U+205F and U+3000.
\<close>

definition unicode_spaces :: "string list" where
  "unicode_spaces =
     [[CHR 0x09], [CHR 0x0A], [CHR 0x0B],
      [CHR 0x0C], [CHR 0x0D], [CHR 0x20],
      [CHR 0xC2, CHR 0x85], [CHR 0xC2, CHR 0xA0], [CHR 0xE1, CHR 0x9A, CHR 0x80],
      [CHR 0xE2, CHR 0x80, CHR 0x80], [CHR 0xE2, CHR 0x80, CHR 0x81], [CHR 0xE2, CHR 0x80, CHR 0x82],
      [CHR 0xE2, CHR 0x80, CHR 0x83], [CHR 0xE2, CHR 0x80, CHR 0x84], [CHR 0xE2, CHR 0x80, CHR 0x85],
      [CHR 0xE2, CHR 0x80, CHR 0x86], [CHR 0xE2, CHR 0x80, CHR 0x87], [CHR 0xE2, CHR 0x80, CHR 0x88],
      [CHR 0xE2, CHR 0x80, CHR 0x89], [CHR 0xE2, CHR 0x80, CHR 0x8A], [CHR 0xE2, CHR 0x80, CHR 0xA8],
      [CHR 0xE2, CHR 0x80, CHR 0xA9], [CHR 0xE2, CHR 0x80, CHR 0xAF], [CHR 0xE2, CHR 0x81, CHR 0x9F],
      [CHR 0xE3, CHR 0x80, CHR 0x80]]"

text \<open>The width in bytes of the white-space rune a string starts with, 0 when it starts with none.\<close>

definition leading_space :: "string \<Rightarrow> nat" where
  "leading_space s =
     (case find (\<lambda>sp. prefix sp s) unicode_spaces of None \<Rightarrow> 0 | Some sp \<Rightarrow> length sp)"

text \<open>The same for the rune a string ends with.\<close>

definition trailing_space :: "string \<Rightarrow> nat" where
  "trailing_space s =
     (case find (\<lambda>sp. suffix sp s) unicode_spaces of None \<Rightarrow> 0 | Some sp \<Rightarrow> length sp)"

function TrimLeft :: "string \<Rightarrow> string" where
  "TrimLeft s = (if leading_space s = 0 then s else TrimLeft (drop (leading_space s) s))"
  by pat_completeness auto

function TrimRight :: "string \<Rightarrow> string" where
  "TrimRight s =
     (if trailing_space s = 0 then s else TrimRight (take (length s - trailing_space s) s))"
  by pat_completeness auto

lemma leading_space_le: "leading_space s \<le> length s"
  by (auto simp: leading_space_def prefix_def find_Some_iff split: option.splits)

lemma trailing_space_le: "trailing_space s \<le> length s"
  by (auto simp: trailing_space_def suffix_def find_Some_iff split: option.splits)

termination TrimLeft
proof (relation "measure length")
  show "wf (measure (length :: string \<Rightarrow> nat))" by simp
next
  fix s :: string
  assume "leading_space s \<noteq> 0"
  moreover have "leading_space s \<le> length s" by (rule leading_space_le)
  ultimately show "(drop (leading_space s) s, s) \<in> measure length" by simp
qed

termination TrimRight
proof (relation "measure length")
  show "wf (measure (length :: string \<Rightarrow> nat))" by simp
next
  fix s :: string
  assume "trailing_space s \<noteq> 0"
  moreover have "trailing_space s \<le> length s" by (rule trailing_space_le)
  ultimately show "(take (length s - trailing_space s) s, s) \<in> measure length" by simp
qed

definition TrimSpace :: "string \<Rightarrow> string" where
  "TrimSpace s = TrimRight (TrimLeft s)"

subsection \<open>Standard library: socket addresses and request headers\<close>

text \<open>
  \<open>net.SplitHostPort\<close> splits \<open>host:port\<close>, \<open>[host]:port\<close> and the like. The port
  starts after the last colon; a host with a colon of its own has to stand in brackets.
\<close>

datatype AddrError =
    missing_port | too_many_colons | missing_bracket | unexpected_open | unexpected_close

text \<open>\<open>bytealg.IndexByteString\<close>: where a byte first occurs.\<close>

fun IndexByteString :: "string \<Rightarrow> char \<Rightarrow> nat option" where
  "IndexByteString [] c = None"
| "IndexByteString (x # xs) c =
     (if x = c then Some 0 else map_option Suc (IndexByteString xs c))"

text \<open>\<open>last\<close> of package \<open>net\<close>: where a byte last occurs.\<close>

fun last_index :: "string \<Rightarrow> char \<Rightarrow> nat option" where
  "last_index [] c = None"
| "last_index (x # xs) c =
     (case last_index xs c of
        Some i \<Rightarrow> Some (Suc i)
      | None \<Rightarrow> (if x = c then Some 0 else None))"

definition SplitHostPort :: "string \<Rightarrow> AddrError + string \<times> string" where
  "SplitHostPort hostport =
     (let finish = (\<lambda>host j k i.
            if IndexByteString (drop j hostport) (CHR ''['') \<noteq> None then Inl unexpected_open
            else if IndexByteString (drop k hostport) (CHR '']'') \<noteq> None then Inl unexpected_close
            else Inr (host, drop (i + 1) hostport))
      in case last_index hostport (CHR '':'') of
           None \<Rightarrow> Inl missing_port
         | Some i \<Rightarrow>
             if take 1 hostport = ''[''
             then (case IndexByteString hostport (CHR '']'') of
                     None \<Rightarrow> Inl missing_bracket
                   | Some close \<Rightarrow>
                       if close + 1 = length hostport then Inl missing_port
                       else if close + 1 = i
                         then finish (drop 1 (take close hostport)) 1 (close + 1) i
                       else if take 1 (drop (close + 1) hostport) = '':''
                         then Inl too_many_colons
                       else Inl missing_port)
             else (let host = take i hostport
                   in if IndexByteString host (CHR '':'') \<noteq> None then Inl too_many_colons
                      else finish host 0 0 i))"

text \<open>
  \<open>http.Header\<close> maps a canonical header name to its values; \<open>Get\<close> returns the first
  value, and the empty string when there is none. The names used here are looked up in
  their canonical form.
\<close>

type_synonym http_Header = "string \<rightharpoonup> string list"

definition Header_Get :: "http_Header \<Rightarrow> string \<Rightarrow> string" where
  "Header_Get h key = (case h key of None \<Rightarrow> [] | Some [] \<Rightarrow> [] | Some (v # _) \<Rightarrow> v)"

record http_Request =
  Header :: http_Header
  RemoteAddr :: string

subsection \<open>The client's address\<close>

text \<open>
  Indexing a slice panics out of range; \<open>getClientIPFromRequest\<close> indexes the parts of
  the forwarded-for header, so its result is a panic or a string.
\<close>

datatype panic = index_out_of_range

definition slice_index :: "'a list \<Rightarrow> int \<Rightarrow> panic + 'a" where
  "slice_index xs i =
     (if 0 \<le> i \<and> i < int (length xs) then Inr (xs ! nat i) else Inl index_out_of_range)"

definition getClientIPFromRequest :: "int \<Rightarrow> http_Request \<Rightarrow> panic + string" where
  "getClientIPFromRequest proxyCount r =
     (let remote =
            (case SplitHostPort (RemoteAddr r) of
               Inl err \<Rightarrow> Inr (RemoteAddr r)
             | Inr (remoteIP, port) \<Rightarrow> Inr remoteIP)
      in if proxyCount > 0
         then (let xForwardedFor = Header_Get (Header r) ''X-Forwarded-For''
               in if xForwardedFor \<noteq> ''''
                  then (let xForwardedForParts = Split xForwardedFor (CHR '','');
                            partIndex = int (length xForwardedForParts) - proxyCount;
                            partIndex = (if partIndex < 0 then 0 else partIndex)
                        in case slice_index xForwardedForParts partIndex of
                             Inl p \<Rightarrow> Inl p
                           | Inr part \<Rightarrow> Inr (TrimSpace part))
                  else remote)
         else remote)"

subsection \<open>Standard library: durations\<close>

text \<open>
  A \<open>time.Duration\<close> counts nanoseconds in an \<open>int64\<close>. \<open>Round\<close> rounds to a multiple
  of \<open>m\<close>, halves away from zero, and saturates where the result would overflow.
\<close>

type_synonym Duration = int

definition Second :: Duration where
  "Second = 1000000000"

definition maxDuration :: Duration where
  "maxDuration = 2 ^ 63 - 1"

definition minDuration :: Duration where
  "minDuration = - (2 ^ 63)"

definition Duration_Round :: "Duration \<Rightarrow> Duration \<Rightarrow> Duration" where
  "Duration_Round d m =
     (if m \<le> 0 then d
      else if d < 0
      then (let r = (- d) mod m
            in if r + r < m then d + r
               else if minDuration \<le> d - m + r then d - m + r
               else minDuration)
      else (let r = d mod m
            in if r + r < m then d - r
               else if d + m - r \<le> maxDuration then d + m - r
               else maxDuration))"

text \<open>
  \<open>Duration.String\<close> writes \<open>72h3m0.5s\<close>: the buffer is filled from its end, so each
  helper puts its digits in front of what is already there.
\<close>

definition digit :: "int \<Rightarrow> char" where
  "digit n = ''0123456789'' ! nat n"

function fmtInt_loop :: "int \<Rightarrow> string \<Rightarrow> string" where
  "fmtInt_loop v buf = (if v > 0 then fmtInt_loop (v div 10) (digit (v mod 10) # buf) else buf)"
  by pat_completeness auto
termination
  by (relation "measure (\<lambda>(v, buf). nat v)") auto

definition fmtInt :: "string \<Rightarrow> int \<Rightarrow> string" where
  "fmtInt buf v = (if v = 0 then CHR ''0'' # buf else fmtInt_loop v buf)"

text \<open>
  \<open>fmtFrac\<close> writes the fraction of \<open>v / 10 ^ prec\<close> without its trailing zeros (and without
  the point when there is nothing behind it) and returns the integer part.
\<close>

fun fmtFrac_loop :: "nat \<Rightarrow> bool \<Rightarrow> string \<Rightarrow> int \<Rightarrow> string \<times> int" where
  "fmtFrac_loop 0 print buf v = (if print then CHR ''.'' # buf else buf, v)"
| "fmtFrac_loop (Suc i) print buf v =
     (let d = v mod 10; print = (print \<or> d \<noteq> 0)
      in fmtFrac_loop i print (if print then digit d # buf else buf) (v div 10))"

definition fmtFrac :: "string \<Rightarrow> int \<Rightarrow> nat \<Rightarrow> string \<times> int" where
  "fmtFrac buf v prec = fmtFrac_loop prec False buf v"

definition Duration_String :: "Duration \<Rightarrow> string" where
  "Duration_String d =
     (let u = \<bar>d\<bar>;
          buf =
            (if u < 1000000000
             then (if u = 0 then ''0s''
                   else (let (prec, unit) =
                               (if u < 1000 then (0, ''ns'')
                                else if u < 1000000 then (3, [CHR 0xC2, CHR 0xB5, CHR ''s''])
                                else (6, ''ms''));
                             (buf, u) = fmtFrac unit u prec
                         in fmtInt buf u))
             else (let (buf, u) = fmtFrac ''s'' u 9;
                       buf = fmtInt buf (u mod 60);
                       u = u div 60
                   in if u > 0
                      then (let buf = fmtInt (CHR ''m'' # buf) (u mod 60);
                                u = u div 60
                            in if u > 0 then fmtInt (CHR ''h'' # buf) u else buf)
                      else buf))
      in if d < 0 then CHR ''-'' # buf else buf)"

subsection \<open>The key store\<close>

text \<open>
  Modelled from the spec: the expiring key store \<open>ttlcache.Cache\<close>, a library whose code is
  not among the sources, after the contract of the spec's section 4.1. A value is stored
  with the moment it expires (none for a value that never expires); a read finds it until
  that moment and changes nothing; the remaining time of a value that never expires is
  reported as 0. Every operation that depends on the clock takes its reading \<open>now\<close>.
\<close>

datatype cache_value = bool_value bool | uint64_value "64 word"

record item =
  data :: cache_value
  expireAt :: "int option"

type_synonym Cache = "string \<rightharpoonup> item"

definition NewCache :: Cache where
  "NewCache = Map.empty"

definition expired :: "int \<Rightarrow> item \<Rightarrow> bool" where
  "expired now it = (case expireAt it of None \<Rightarrow> False | Some t \<Rightarrow> t \<le> now)"

definition remaining :: "int \<Rightarrow> item \<Rightarrow> Duration" where
  "remaining now it = (case expireAt it of None \<Rightarrow> 0 | Some t \<Rightarrow> t - now)"

definition getItem :: "Cache \<Rightarrow> int \<Rightarrow> string \<Rightarrow> item option" where
  "getItem c now key =
     (case c key of None \<Rightarrow> None | Some it \<Rightarrow> if expired now it then None else Some it)"

definition ttlcache_Get :: "Cache \<Rightarrow> int \<Rightarrow> string \<Rightarrow> cache_value option" where
  "ttlcache_Get c now key = map_option data (getItem c now key)"

definition ttlcache_GetWithTTL :: "Cache \<Rightarrow> int \<Rightarrow> string \<Rightarrow> (cache_value \<times> Duration) option" where
  "ttlcache_GetWithTTL c now key = map_option (\<lambda>it. (data it, remaining now it)) (getItem c now key)"

definition ttlcache_SetWithTTL :: "Cache \<Rightarrow> int \<Rightarrow> string \<Rightarrow> cache_value \<Rightarrow> Duration \<Rightarrow> Cache" where
  "ttlcache_SetWithTTL c now key v d = c(key \<mapsto> \<lparr>data = v, expireAt = Some (now + d)\<rparr>)"

definition ttlcache_Set :: "Cache \<Rightarrow> string \<Rightarrow> cache_value \<Rightarrow> Cache" where
  "ttlcache_Set c key v = c(key \<mapsto> \<lparr>data = v, expireAt = None\<rparr>)"

definition ttlcache_Remove :: "Cache \<Rightarrow> string \<Rightarrow> Cache" where
  "ttlcache_Remove c key = c(key := None)"

subsection \<open>What a request does: the store and the trace of its calls\<close>

text \<open>
  Serving a request changes the store and calls collaborators. The calls are recorded in
  order: the lock, every call of the store, the calls of the ledger client and of the
  captcha verifier, a response the middleware renders itself, and the call of the next
  handler. Logging is left out.
\<close>

datatype event =
    mutex_Lock
  | mutex_Unlock
  | cache_GetWithTTL string
  | cache_SetWithTTL string cache_value Duration
  | cache_Get string
  | cache_Set string cache_value
  | cache_Remove string
  | ethclient_Dial string
  | client_PendingNonceAt string
  | hcaptcha_VerifyToken string
  | rendered string int
  | next_ServeHTTP

record world =
  cache :: Cache
  trace :: "event list"

definition emit :: "event \<Rightarrow> world \<Rightarrow> world" where
  "emit ev w = w\<lparr>trace := trace w @ [ev]\<rparr>"

definition GetWithTTL :: "int \<Rightarrow> string \<Rightarrow> world \<Rightarrow> (cache_value \<times> Duration) option \<times> world" where
  "GetWithTTL now key w = (ttlcache_GetWithTTL (cache w) now key, emit (cache_GetWithTTL key) w)"

definition SetWithTTL :: "int \<Rightarrow> string \<Rightarrow> cache_value \<Rightarrow> Duration \<Rightarrow> world \<Rightarrow> world" where
  "SetWithTTL now key v d w =
     emit (cache_SetWithTTL key v d) (w\<lparr>cache := ttlcache_SetWithTTL (cache w) now key v d\<rparr>)"

definition Get :: "int \<Rightarrow> string \<Rightarrow> world \<Rightarrow> cache_value option \<times> world" where
  "Get now key w = (ttlcache_Get (cache w) now key, emit (cache_Get key) w)"

definition Set_nonce :: "string \<Rightarrow> cache_value \<Rightarrow> world \<Rightarrow> world" where
  "Set_nonce key v w = emit (cache_Set key v) (w\<lparr>cache := ttlcache_Set (cache w) key v\<rparr>)"

definition Remove :: "string \<Rightarrow> world \<Rightarrow> world" where
  "Remove key w = emit (cache_Remove key) (w\<lparr>cache := ttlcache_Remove (cache w) key\<rparr>)"

text \<open>
  \<open>renderJSON(w, claimResponse{Message: message}, status)\<close> writes the response: a JSON
  body with the message, under the status.
\<close>

definition renderJSON :: "string \<Rightarrow> int \<Rightarrow> world \<Rightarrow> world" where
  "renderJSON message status w = emit (rendered message status) w"

definition StatusOK :: int where
  "StatusOK = 200"

definition StatusTooManyRequests :: int where
  "StatusTooManyRequests = 429"

definition StatusInternalServerError :: int where
  "StatusInternalServerError = 500"

text \<open>\<open>http.StatusText\<close>, for the codes above; it is empty for a code it does not know.\<close>

definition StatusText :: "int \<Rightarrow> string" where
  "StatusText code =
     (if code = 200 then ''OK''
      else if code = 429 then ''Too Many Requests''
      else if code = 500 then ''Internal Server Error''
      else '''')"

subsection \<open>The collaborators\<close>

text \<open>
  What the middleware calls and does not define is a parameter of the model:
  \<^item> \<open>readAddress\<close> parses the claimant's address from the request, or fails, with a
    \<open>malformedRequest\<close> (a status and a message) or with another error;
  \<^item> \<open>Dial\<close> is whether \<open>ethclient.Dial\<close> reaches the ledger's endpoint, and
    \<open>PendingNonceAt\<close> the pending sequence number of an address, if the query succeeds;
  \<open>common.HexToAddress\<close> is part of that query;
  \<^item> \<open>next_Status\<close> is the status that the response writer holds after the next handler
    has served the request (the writer is a \<open>negroni.ResponseWriter\<close>, as the type
    assertion of \<open>ServeHTTP\<close> requires); the handler has no access to the limiter's store;
  \<^item> \<open>VerifyToken\<close> is whether the captcha service reports success for a token;
  \<^item> the five clock readings are the moments of the calls of the store that depend on time.
\<close>

datatype error = malformedRequest int string | other_error

record env =
  readAddress :: "http_Request \<Rightarrow> error + string"
  Dial :: "string \<Rightarrow> bool"
  PendingNonceAt :: "string \<Rightarrow> 64 word option"
  next_Status :: "http_Request \<Rightarrow> int"
  VerifyToken :: "string \<Rightarrow> bool"
  now_limit_address :: int
  now_limit_clientIP :: int
  now_set_address :: int
  now_set_clientIP :: int
  now_get_nonce :: int

subsection \<open>The rate limiter\<close>

record Limiter =
  proxyCount :: int
  ttl :: Duration
  provider :: string

text \<open>\<open>NewLimiter\<close> starts from an empty store, whose reads do not extend a value's life.\<close>

definition NewLimiter :: "int \<Rightarrow> Duration \<Rightarrow> string \<Rightarrow> Limiter \<times> Cache" where
  "NewLimiter pc d url = (\<lparr>proxyCount = pc, ttl = d, provider = url\<rparr>, NewCache)"

definition errMsg :: "Duration \<Rightarrow> string" where
  "errMsg d =
     ''You have exceeded the rate limit. Please wait ''
     @ Duration_String (Duration_Round d Second) @ '' before you try again''"

definition limitByKey :: "int \<Rightarrow> string \<Rightarrow> world \<Rightarrow> bool \<times> world" where
  "limitByKey now key w =
     (case GetWithTTL now key w of
        (Some (v, d), w) \<Rightarrow> (True, renderJSON (errMsg d) StatusTooManyRequests w)
      | (None, w) \<Rightarrow> (False, w))"

definition nonce_key :: "string \<Rightarrow> string" where
  "nonce_key address = ''nonce-'' @ address"

text \<open>
  \<open>ServeHTTP\<close> serves one request on the store \<open>c\<close>; it returns the store it leaves and
  the trace of its calls. In \<open>a || b\<close> the second key is looked up only when the first
  does not limit. A panic of \<open>getClientIPFromRequest\<close> would end the request before the lock is taken.
\<close>

definition ServeHTTP :: "Limiter \<Rightarrow> env \<Rightarrow> http_Request \<Rightarrow> Cache \<Rightarrow> world" where
  "ServeHTTP l e r c =
     (let w = \<lparr>cache = c, trace = []\<rparr>
      in case readAddress e r of
           Inl (malformedRequest status message) \<Rightarrow> renderJSON message status w
         | Inl other_error \<Rightarrow>
             renderJSON (StatusText StatusInternalServerError) StatusInternalServerError w
         | Inr address \<Rightarrow>
             if ttl l \<le> 0 then emit next_ServeHTTP w
             else (case getClientIPFromRequest (proxyCount l) r of
                 Inl p \<Rightarrow> w
               | Inr clientIP \<Rightarrow>
                   (let w = emit mutex_Lock w;
                        (limited, w) = limitByKey (now_limit_address e) address w
                    in if limited then emit mutex_Unlock w
                       else (let (limited, w) = limitByKey (now_limit_clientIP e) clientIP w
                             in if limited then emit mutex_Unlock w
                                else (let w = SetWithTTL (now_set_address e) address (bool_value True) (ttl l) w;
                                          w = SetWithTTL (now_set_clientIP e) clientIP (bool_value True) (ttl l) w;
                                          w = emit mutex_Unlock w;
                                          w = emit (ethclient_Dial (provider l)) w
                                      in if \<not> Dial e (provider l) then w
                                         else (let w = emit (client_PendingNonceAt address) w
                                               in case PendingNonceAt e address of
                                                    None \<Rightarrow> w
                                                  | Some toNonce \<Rightarrow>
                                                      (let (cacheNonce, w) = Get (now_get_nonce e) (nonce_key address) w
                                                       in if cacheNonce = Some (uint64_value toNonce)
                                                          then renderJSON ''Please do not make repeated requests.''
                                                                 StatusTooManyRequests
                                                                 (Remove clientIP (Remove address w))
                                                          else (let w = emit next_ServeHTTP w
                                                                in if next_Status e r \<noteq> StatusOK
                                                                   then Remove clientIP (Remove address w)
                                                                   else Set_nonce (nonce_key address)
                                                                          (uint64_value toNonce) w))))))))"

text \<open>
  The store after the limiter has served a list of requests one after the other, each with
  what its collaborators did.
\<close>

fun served :: "Limiter \<Rightarrow> (env \<times> http_Request) list \<Rightarrow> Cache \<Rightarrow> Cache" where
  "served l [] c = c"
| "served l ((e, r) # rest) c = served l rest (cache (ServeHTTP l e r c))"

subsection \<open>The captcha gate\<close>

record Captcha =
  secret :: string

text \<open>
  \<open>Captcha.ServeHTTP\<close> returns the trace of its calls. The token is the request's header
  \<open>h-captcha-response\<close>, whose canonical name is \<open>H-Captcha-Response\<close>.
\<close>

definition Captcha_ServeHTTP :: "Captcha \<Rightarrow> env \<Rightarrow> http_Request \<Rightarrow> event list" where
  "Captcha_ServeHTTP c e r =
     (if secret c = '''' then [next_ServeHTTP]
      else (let token = Header_Get (Header r) ''H-Captcha-Response''
            in if \<not> VerifyToken e token
               then [hcaptcha_VerifyToken token,
                     rendered ''Captcha verification failed, please try again'' StatusTooManyRequests]
               else [hcaptcha_VerifyToken token, next_ServeHTTP]))"

subsection \<open>Notions the properties are stated with\<close>

text \<open>
  The store right after the reservation (the two writes under the lock), and the calls of
  a request up to the release of the lock when it is admitted.
\<close>

definition reserved :: "Limiter \<Rightarrow> env \<Rightarrow> string \<Rightarrow> string \<Rightarrow> Cache \<Rightarrow> Cache" where
  "reserved l e address clientIP c =
     ttlcache_SetWithTTL
       (ttlcache_SetWithTTL c (now_set_address e) address (bool_value True) (ttl l))
       (now_set_clientIP e) clientIP (bool_value True) (ttl l)"

definition reservation :: "Limiter \<Rightarrow> string \<Rightarrow> string \<Rightarrow> event list" where
  "reservation l address clientIP =
     [mutex_Lock, cache_GetWithTTL address, cache_GetWithTTL clientIP,
      cache_SetWithTTL address (bool_value True) (ttl l),
      cache_SetWithTTL clientIP (bool_value True) (ttl l), mutex_Unlock]"

text \<open>
  A concrete setting: a limiter behind two proxies with a rate limit of one minute; a
  request for the address \<open>0xA\<close> that came through three proxies; a ledger that reports the
  pending sequence number 5 and a handler that succeeds. Times are nanoseconds.
\<close>

definition example_limiter :: Limiter where
  "example_limiter = \<lparr>proxyCount = 2, ttl = 60 * Second, provider = ''http://node''\<rparr>"

definition example_request :: http_Request where
  "example_request =
     \<lparr>Header = [''X-Forwarded-For'' \<mapsto> [''1.1.1.1, 2.2.2.2, 3.3.3.3'']],
      RemoteAddr = ''9.9.9.9:1234''\<rparr>"

definition example_env :: env where
  "example_env =
     \<lparr>readAddress = (\<lambda>r. Inr ''0xA''), Dial = (\<lambda>url. True), PendingNonceAt = (\<lambda>a. Some 5),
      next_Status = (\<lambda>r. 200), VerifyToken = (\<lambda>token. False),
      now_limit_address = 100, now_limit_clientIP = 101, now_set_address = 102,
      now_set_clientIP = 103, now_get_nonce = 104\<rparr>"

text \<open>
  Three stores for that setting: one with a rate-limit record for the address that has 42
  seconds left when it is looked up, one with a record for the client's address that has
  a minute and a half left, and one with the nonce record 5 for the address.
\<close>

definition limited_address_cache :: Cache where
  "limited_address_cache =
     NewCache(''0xA'' \<mapsto> \<lparr>data = bool_value True, expireAt = Some 42000000100\<rparr>)"

definition limited_clientIP_cache :: Cache where
  "limited_clientIP_cache =
     NewCache(''2.2.2.2'' \<mapsto> \<lparr>data = bool_value True, expireAt = Some 90000000101\<rparr>)"

definition duplicate_cache :: Cache where
  "duplicate_cache = NewCache(''nonce-0xA'' \<mapsto> \<lparr>data = uint64_value 5, expireAt = None\<rparr>)"

section \<open>Properties\<close>

subsection \<open>The paths of \<open>ServeHTTP\<close>\<close>

lemmas call_defs =
  emit_def GetWithTTL_def SetWithTTL_def Get_def Set_nonce_def Remove_def renderJSON_def
  limitByKey_def ttlcache_GetWithTTL_def

lemma ServeHTTP_malformed:
  "readAddress e r = Inl (malformedRequest status message) \<Longrightarrow>
     ServeHTTP l e r c = \<lparr>cache = c, trace = [rendered message status]\<rparr>"
  by (simp add: ServeHTTP_def call_defs)

lemma ServeHTTP_other_error:
  "readAddress e r = Inl other_error \<Longrightarrow>
     ServeHTTP l e r c = \<lparr>cache = c, trace = [rendered ''Internal Server Error'' 500]\<rparr>"
  by (simp add: ServeHTTP_def call_defs StatusText_def StatusInternalServerError_def)

lemma ServeHTTP_disabled:
  "readAddress e r = Inr address \<Longrightarrow> ttl l \<le> 0 \<Longrightarrow>
     ServeHTTP l e r c = \<lparr>cache = c, trace = [next_ServeHTTP]\<rparr>"
  by (simp add: ServeHTTP_def call_defs)

lemma ServeHTTP_limited_address:
  assumes "readAddress e r = Inr address"
      and "getClientIPFromRequest (proxyCount l) r = Inr clientIP"
      and "0 < ttl l"
      and "getItem c (now_limit_address e) address = Some it"
  shows "ServeHTTP l e r c =
           \<lparr>cache = c,
            trace = [mutex_Lock, cache_GetWithTTL address,
                     rendered (errMsg (remaining (now_limit_address e) it)) StatusTooManyRequests,
                     mutex_Unlock]\<rparr>"
  using assms by (simp add: ServeHTTP_def call_defs)

lemma ServeHTTP_limited_clientIP:
  assumes "readAddress e r = Inr address"
      and "getClientIPFromRequest (proxyCount l) r = Inr clientIP"
      and "0 < ttl l"
      and "getItem c (now_limit_address e) address = None"
      and "getItem c (now_limit_clientIP e) clientIP = Some it"
  shows "ServeHTTP l e r c =
           \<lparr>cache = c,
            trace = [mutex_Lock, cache_GetWithTTL address, cache_GetWithTTL clientIP,
                     rendered (errMsg (remaining (now_limit_clientIP e) it)) StatusTooManyRequests,
                     mutex_Unlock]\<rparr>"
  using assms by (simp add: ServeHTTP_def call_defs)

lemma ServeHTTP_no_dial:
  assumes "readAddress e r = Inr address"
      and "getClientIPFromRequest (proxyCount l) r = Inr clientIP"
      and "0 < ttl l"
      and "getItem c (now_limit_address e) address = None"
      and "getItem c (now_limit_clientIP e) clientIP = None"
      and "\<not> Dial e (provider l)"
  shows "ServeHTTP l e r c =
           \<lparr>cache = reserved l e address clientIP c,
            trace = reservation l address clientIP @ [ethclient_Dial (provider l)]\<rparr>"
  using assms by (simp add: ServeHTTP_def call_defs reserved_def reservation_def)

lemma ServeHTTP_no_nonce:
  assumes "readAddress e r = Inr address"
      and "getClientIPFromRequest (proxyCount l) r = Inr clientIP"
      and "0 < ttl l"
      and "getItem c (now_limit_address e) address = None"
      and "getItem c (now_limit_clientIP e) clientIP = None"
      and "Dial e (provider l)"
      and "PendingNonceAt e address = None"
  shows "ServeHTTP l e r c =
           \<lparr>cache = reserved l e address clientIP c,
            trace = reservation l address clientIP
                    @ [ethclient_Dial (provider l), client_PendingNonceAt address]\<rparr>"
  using assms by (simp add: ServeHTTP_def call_defs reserved_def reservation_def)

lemma ServeHTTP_duplicate:
  assumes "readAddress e r = Inr address"
      and "getClientIPFromRequest (proxyCount l) r = Inr clientIP"
      and "0 < ttl l"
      and "getItem c (now_limit_address e) address = None"
      and "getItem c (now_limit_clientIP e) clientIP = None"
      and "Dial e (provider l)"
      and "PendingNonceAt e address = Some toNonce"
      and "ttlcache_Get (reserved l e address clientIP c) (now_get_nonce e) (nonce_key address)
             = Some (uint64_value toNonce)"
  shows "ServeHTTP l e r c =
           \<lparr>cache = ttlcache_Remove (ttlcache_Remove (reserved l e address clientIP c) address) clientIP,
            trace = reservation l address clientIP
                    @ [ethclient_Dial (provider l), client_PendingNonceAt address,
                       cache_Get (nonce_key address), cache_Remove address, cache_Remove clientIP,
                       rendered ''Please do not make repeated requests.'' StatusTooManyRequests]\<rparr>"
  using assms by (simp add: ServeHTTP_def call_defs reserved_def reservation_def)

lemma ServeHTTP_handler_failed:
  assumes "readAddress e r = Inr address"
      and "getClientIPFromRequest (proxyCount l) r = Inr clientIP"
      and "0 < ttl l"
      and "getItem c (now_limit_address e) address = None"
      and "getItem c (now_limit_clientIP e) clientIP = None"
      and "Dial e (provider l)"
      and "PendingNonceAt e address = Some toNonce"
      and "ttlcache_Get (reserved l e address clientIP c) (now_get_nonce e) (nonce_key address)
             \<noteq> Some (uint64_value toNonce)"
      and "next_Status e r \<noteq> StatusOK"
  shows "ServeHTTP l e r c =
           \<lparr>cache = ttlcache_Remove (ttlcache_Remove (reserved l e address clientIP c) address) clientIP,
            trace = reservation l address clientIP
                    @ [ethclient_Dial (provider l), client_PendingNonceAt address,
                       cache_Get (nonce_key address), next_ServeHTTP,
                       cache_Remove address, cache_Remove clientIP]\<rparr>"
  using assms by (simp add: ServeHTTP_def call_defs reserved_def reservation_def)

lemma ServeHTTP_handler_succeeded:
  assumes "readAddress e r = Inr address"
      and "getClientIPFromRequest (proxyCount l) r = Inr clientIP"
      and "0 < ttl l"
      and "getItem c (now_limit_address e) address = None"
      and "getItem c (now_limit_clientIP e) clientIP = None"
      and "Dial e (provider l)"
      and "PendingNonceAt e address = Some toNonce"
      and "ttlcache_Get (reserved l e address clientIP c) (now_get_nonce e) (nonce_key address)
             \<noteq> Some (uint64_value toNonce)"
      and "next_Status e r = StatusOK"
  shows "ServeHTTP l e r c =
           \<lparr>cache = ttlcache_Set (reserved l e address clientIP c) (nonce_key address) (uint64_value toNonce),
            trace = reservation l address clientIP
                    @ [ethclient_Dial (provider l), client_PendingNonceAt address,
                       cache_Get (nonce_key address), next_ServeHTTP,
                       cache_Set (nonce_key address) (uint64_value toNonce)]\<rparr>"
  using assms by (simp add: ServeHTTP_def call_defs reserved_def reservation_def)

subsection \<open>The store after the reservation, and the concrete setting\<close>

lemma getItem_reserved_address:
  "getItem (reserved l e address clientIP c) now address =
     (if address = clientIP
      then (if now_set_clientIP e + ttl l \<le> now then None
            else Some \<lparr>data = bool_value True, expireAt = Some (now_set_clientIP e + ttl l)\<rparr>)
      else (if now_set_address e + ttl l \<le> now then None
            else Some \<lparr>data = bool_value True, expireAt = Some (now_set_address e + ttl l)\<rparr>))"
  by (simp add: reserved_def ttlcache_SetWithTTL_def getItem_def expired_def)

lemma getItem_reserved_clientIP:
  "getItem (reserved l e address clientIP c) now clientIP =
     (if now_set_clientIP e + ttl l \<le> now then None
      else Some \<lparr>data = bool_value True, expireAt = Some (now_set_clientIP e + ttl l)\<rparr>)"
  by (simp add: reserved_def ttlcache_SetWithTTL_def getItem_def expired_def)

lemma reserved_other:
  "key \<noteq> address \<Longrightarrow> key \<noteq> clientIP \<Longrightarrow> reserved l e address clientIP c key = c key"
  by (simp add: reserved_def ttlcache_SetWithTTL_def)

lemma nonce_key_neq: "nonce_key address \<noteq> address"
  by (simp add: nonce_key_def)

lemma example_parse: "readAddress example_env example_request = Inr ''0xA''"
  by (simp add: example_env_def)

lemma example_clientIP:
  "getClientIPFromRequest (proxyCount example_limiter) example_request = Inr ''2.2.2.2''"
  by code_simp

lemma example_ttl: "0 < ttl example_limiter"
  by (simp add: example_limiter_def Second_def)

lemma example_ttl_value: "ttl example_limiter = 60000000000"
  by (simp add: example_limiter_def Second_def)

lemma ServeHTTP_disabled_cache: "ttl l \<le> 0 \<Longrightarrow> cache (ServeHTTP l e r c) = c"
proof (cases "readAddress e r")
  case (Inl err)
  then show ?thesis
    by (cases err) (simp_all add: ServeHTTP_malformed ServeHTTP_other_error)
next
  case (Inr address)
  assume "ttl l \<le> 0"
  with Inr show ?thesis by (simp add: ServeHTTP_disabled)
qed

lemma served_disabled: "ttl l \<le> 0 \<Longrightarrow> served l history c = c"
  by (induction l history c rule: served.induct) (simp_all add: ServeHTTP_disabled_cache)

subsection \<open>Errors of the address parser\<close>

text \<open>
  C10. When parsing the claimant's address fails with an error that is not a malformed
  request, the limiter answers with the status 500 and the message
  \<open>Internal Server Error\<close>; it makes no call of the store, of the ledger or of the next
  handler, and the store is as it was. (A malformed request is answered with its own
  status and message instead.)
\<close>

theorem parse_failure_is_internal_error:
  "readAddress e r = Inl other_error \<Longrightarrow>
     ServeHTTP l e r c = \<lparr>cache = c, trace = [rendered ''Internal Server Error'' 500]\<rparr>"
  by (rule ServeHTTP_other_error)

theorem parse_failure_is_internal_error_witness:
  "ServeHTTP example_limiter (example_env\<lparr>readAddress := (\<lambda>r. Inl other_error)\<rparr>)
     example_request NewCache
   = \<lparr>cache = NewCache, trace = [rendered ''Internal Server Error'' 500]\<rparr>"
proof -
  have "readAddress (example_env\<lparr>readAddress := (\<lambda>r. Inl other_error)\<rparr>) example_request
          = Inl other_error"
    by simp
  then show ?thesis
    by (rule parse_failure_is_internal_error)
qed

subsection \<open>Resolving the client's address\<close>

lemma length_Split: "0 < length (Split s sep)"
  by (induction s) (auto split: list.splits)

lemma last_index_None: "last_index s c = None \<longleftrightarrow> c \<notin> set s"
  by (induction s) (auto split: option.splits)

lemma IndexByteString_None: "IndexByteString s c = None \<longleftrightarrow> c \<notin> set s"
  by (induction s) auto

lemma last_index_append: "c \<notin> set ys \<Longrightarrow> last_index (xs @ c # ys) c = Some (length xs)"
proof (induction xs)
  case Nil
  then have "last_index ys c = None" by (simp add: last_index_None)
  then show ?case by simp
next
  case (Cons x xs)
  then show ?case by simp
qed

lemma clamped_index_bound: "0 < n \<Longrightarrow> 0 < p \<Longrightarrow> nat (max 0 (int n - p)) < n"
  by arith

lemma take1_bracket: "CHR ''['' \<notin> set host \<Longrightarrow> take 1 (host @ CHR '':'' # port) \<noteq> ''[''"
  by (cases host) auto

lemma SplitHostPort_plain:
  assumes "set host \<inter> {CHR '':'', CHR ''['', CHR '']''} = {}"
      and "set port \<inter> {CHR '':'', CHR ''['', CHR '']''} = {}"
  shows "SplitHostPort (host @ CHR '':'' # port) = Inr (host, port)"
proof -
  have i: "last_index (host @ CHR '':'' # port) (CHR '':'') = Some (length host)"
    using assms(2) by (intro last_index_append) auto
  have b: "take 1 (host @ CHR '':'' # port) \<noteq> ''[''"
    using assms(1) by (intro take1_bracket) auto
  have h: "IndexByteString host (CHR '':'') = None"
    using assms(1) by (simp add: IndexByteString_None)
  have o: "IndexByteString (host @ CHR '':'' # port) (CHR ''['') = None"
    using assms by (simp add: IndexByteString_None)
  have c: "IndexByteString (host @ CHR '':'' # port) (CHR '']'') = None"
    using assms by (simp add: IndexByteString_None)
  show ?thesis
    using b by (simp add: SplitHostPort_def i h o c)
qed

lemma SplitHostPort_no_colon: "CHR '':'' \<notin> set s \<Longrightarrow> SplitHostPort s = Inl missing_port"
  by (simp add: SplitHostPort_def last_index_None [THEN iffD2])

lemma Header_Get_absent: "h key = None \<Longrightarrow> Header_Get h key = ''''"
  by (simp add: Header_Get_def)

lemma getClientIP_remote:
  "pc \<le> 0 \<or> Header_Get (Header r) ''X-Forwarded-For'' = '''' \<Longrightarrow>
     getClientIPFromRequest pc r =
       Inr (case SplitHostPort (RemoteAddr r) of Inl err \<Rightarrow> RemoteAddr r | Inr (host, port) \<Rightarrow> host)"
  by (auto simp: getClientIPFromRequest_def Let_def split: sum.splits)

lemma getClientIP_forwarded:
  assumes "0 < pc" and "Header_Get (Header r) ''X-Forwarded-For'' \<noteq> ''''"
  shows "let tokens = Split (Header_Get (Header r) ''X-Forwarded-For'') (CHR '','');
             i = nat (max 0 (int (length tokens) - pc))
         in i < length tokens \<and> getClientIPFromRequest pc r = Inr (TrimSpace (tokens ! i))"
proof -
  let ?ts = "Split (Header_Get (Header r) ''X-Forwarded-For'') (CHR '','')"
  have pos: "0 < length ?ts" by (rule length_Split)
  have bound: "nat (max 0 (int (length ?ts) - pc)) < length ?ts"
    using pos assms(1) by (rule clamped_index_bound)
  then have "getClientIPFromRequest pc r =
       Inr (TrimSpace (?ts ! nat (max 0 (int (length ?ts) - pc))))"
    using assms pos by (auto simp: getClientIPFromRequest_def Let_def slice_index_def max_def)
  with bound show ?thesis by (simp add: Let_def)
qed

lemma getClientIP_total: "\<exists>clientIP. getClientIPFromRequest pc r = Inr clientIP"
proof (cases "0 < pc \<and> Header_Get (Header r) ''X-Forwarded-For'' \<noteq> ''''")
  case True
  then show ?thesis using getClientIP_forwarded [of pc r] by (auto simp: Let_def)
next
  case False
  then show ?thesis using getClientIP_remote [of pc r] by auto
qed

text \<open>
  C5. Resolving the client's address. With a proxy count that is not positive, or with no
  forwarded-for header, or an empty one, the result is the host of the remote socket
  address as \<open>net.SplitHostPort\<close> splits it, and the address as it is when the split fails;
  so it is the address unchanged when it has no colon, and the part before the colon of a
  plain \<open>host:port\<close>. With a positive proxy count and a header that is not empty, the header
  is split at its commas and the result is the token at the index
  \<open>max 0 (length tokens - proxyCount)\<close>, which is always within range, trimmed of white
  space. For the header \<open>1.1.1.1, 2.2.2.2, 3.3.3.3\<close> and the remote address
  \<open>9.9.9.9:1234\<close>, two proxies give \<open>2.2.2.2\<close>, five give \<open>1.1.1.1\<close> and none gives
  \<open>9.9.9.9\<close>.
\<close>

theorem client_address_resolution:
  "(pc \<le> 0 \<or> Header r ''X-Forwarded-For'' = None
      \<or> Header_Get (Header r) ''X-Forwarded-For'' = '''' \<longrightarrow>
      getClientIPFromRequest pc r =
        Inr (case SplitHostPort (RemoteAddr r) of Inl err \<Rightarrow> RemoteAddr r | Inr (host, port) \<Rightarrow> host)
      \<and> (CHR '':'' \<notin> set (RemoteAddr r) \<longrightarrow>
            getClientIPFromRequest pc r = Inr (RemoteAddr r))
      \<and> (\<forall>host port. RemoteAddr r = host @ '':'' @ port
            \<and> set host \<inter> {CHR '':'', CHR ''['', CHR '']''} = {}
            \<and> set port \<inter> {CHR '':'', CHR ''['', CHR '']''} = {} \<longrightarrow>
            getClientIPFromRequest pc r = Inr host))
   \<and> (0 < pc \<and> Header_Get (Header r) ''X-Forwarded-For'' \<noteq> '''' \<longrightarrow>
        (let tokens = Split (Header_Get (Header r) ''X-Forwarded-For'') (CHR '','');
             i = nat (max 0 (int (length tokens) - pc))
         in i < length tokens
            \<and> getClientIPFromRequest pc r = Inr (TrimSpace (tokens ! i))))
   \<and> getClientIPFromRequest 2 example_request = Inr ''2.2.2.2''
   \<and> getClientIPFromRequest 5 example_request = Inr ''1.1.1.1''
   \<and> getClientIPFromRequest 0 example_request = Inr ''9.9.9.9''"
proof (intro conjI impI allI)
  assume a: "pc \<le> 0 \<or> Header r ''X-Forwarded-For'' = None
      \<or> Header_Get (Header r) ''X-Forwarded-For'' = ''''"
  then have b: "pc \<le> 0 \<or> Header_Get (Header r) ''X-Forwarded-For'' = ''''"
    using Header_Get_absent [of "Header r" "''X-Forwarded-For''"] by blast
  then show remote: "getClientIPFromRequest pc r =
        Inr (case SplitHostPort (RemoteAddr r) of Inl err \<Rightarrow> RemoteAddr r | Inr (host, port) \<Rightarrow> host)"
    by (rule getClientIP_remote)
  {
    assume "CHR '':'' \<notin> set (RemoteAddr r)"
    then have "SplitHostPort (RemoteAddr r) = Inl missing_port"
      by (rule SplitHostPort_no_colon)
    with remote show "getClientIPFromRequest pc r = Inr (RemoteAddr r)"
      by simp
  }
  {
    fix host port
    assume "RemoteAddr r = host @ '':'' @ port
            \<and> set host \<inter> {CHR '':'', CHR ''['', CHR '']''} = {}
            \<and> set port \<inter> {CHR '':'', CHR ''['', CHR '']''} = {}"
    then have "SplitHostPort (RemoteAddr r) = Inr (host, port)"
      using SplitHostPort_plain [of host port] by simp
    with remote show "getClientIPFromRequest pc r = Inr host"
      by simp
  }
next
  assume "0 < pc \<and> Header_Get (Header r) ''X-Forwarded-For'' \<noteq> ''''"
  then show "let tokens = Split (Header_Get (Header r) ''X-Forwarded-For'') (CHR '','');
             i = nat (max 0 (int (length tokens) - pc))
         in i < length tokens
            \<and> getClientIPFromRequest pc r = Inr (TrimSpace (tokens ! i))"
    using getClientIP_forwarded [of pc r] by blast
next
  show "getClientIPFromRequest 2 example_request = Inr ''2.2.2.2''" by code_simp
  show "getClientIPFromRequest 5 example_request = Inr ''1.1.1.1''" by code_simp
  show "getClientIPFromRequest 0 example_request = Inr ''9.9.9.9''" by code_simp
qed

theorem client_address_resolution_witness:
  "getClientIPFromRequest 2 example_request
     = Inr (TrimSpace (Split ''1.1.1.1, 2.2.2.2, 3.3.3.3'' (CHR '','') ! 1))
   \<and> TrimSpace (Split ''1.1.1.1, 2.2.2.2, 3.3.3.3'' (CHR '','') ! 1) = ''2.2.2.2''
   \<and> getClientIPFromRequest 0 example_request = Inr ''9.9.9.9''
   \<and> getClientIPFromRequest 2 (example_request\<lparr>Header := Map.empty, RemoteAddr := ''9.9.9.9''\<rparr>)
       = Inr ''9.9.9.9''"
proof -
  have h: "Header_Get (Header example_request) ''X-Forwarded-For'' = ''1.1.1.1, 2.2.2.2, 3.3.3.3''"
    by (simp add: example_request_def Header_Get_def)
  have l: "length (Split ''1.1.1.1, 2.2.2.2, 3.3.3.3'' (CHR '','')) = 3"
    by simp
  have "(0::int) < 2 \<and> Header_Get (Header example_request) ''X-Forwarded-For'' \<noteq> ''''"
    by (simp add: h)
  with client_address_resolution [of 2 example_request]
  have 1: "getClientIPFromRequest 2 example_request
     = Inr (TrimSpace (Split ''1.1.1.1, 2.2.2.2, 3.3.3.3'' (CHR '','') ! 1))"
    unfolding h Let_def l by simp
  have 2: "TrimSpace (Split ''1.1.1.1, 2.2.2.2, 3.3.3.3'' (CHR '','') ! 1) = ''2.2.2.2''"
    by code_simp
  have "RemoteAddr example_request = ''9.9.9.9'' @ '':'' @ ''1234''
        \<and> set ''9.9.9.9'' \<inter> {CHR '':'', CHR ''['', CHR '']''} = {}
        \<and> set ''1234'' \<inter> {CHR '':'', CHR ''['', CHR '']''} = {}"
    by (simp add: example_request_def)
  with client_address_resolution [of 0 example_request]
  have 3: "getClientIPFromRequest 0 example_request = Inr ''9.9.9.9''"
    by blast
  let ?direct = "example_request\<lparr>Header := Map.empty, RemoteAddr := ''9.9.9.9''\<rparr>"
  have "Header ?direct ''X-Forwarded-For'' = None \<and> CHR '':'' \<notin> set (RemoteAddr ?direct)"
    by simp
  with client_address_resolution [of 2 ?direct]
  have "getClientIPFromRequest 2 ?direct = Inr (RemoteAddr ?direct)"
    by blast
  then have 4: "getClientIPFromRequest 2 ?direct = Inr ''9.9.9.9''"
    by simp
  from 1 2 3 4 show ?thesis by blast
qed

subsection \<open>Admission: the two checks and the reservation\<close>

lemma ServeHTTP_admitted_prefix:
  assumes "readAddress e r = Inr address"
      and "getClientIPFromRequest (proxyCount l) r = Inr clientIP"
      and "0 < ttl l"
      and "getItem c (now_limit_address e) address = None"
      and "getItem c (now_limit_clientIP e) clientIP = None"
  shows "take 6 (trace (ServeHTTP l e r c)) = reservation l address clientIP"
proof (cases "Dial e (provider l)")
  case False
  with assms show ?thesis
    by (simp add: ServeHTTP_no_dial reservation_def)
next
  case dial: True
  show ?thesis
  proof (cases "PendingNonceAt e address")
    case None
    with assms dial show ?thesis
      by (simp add: ServeHTTP_no_nonce reservation_def)
  next
    case (Some toNonce)
    show ?thesis
    proof (cases "ttlcache_Get (reserved l e address clientIP c) (now_get_nonce e) (nonce_key address)
                    = Some (uint64_value toNonce)")
      case True
      with assms dial Some show ?thesis
        by (simp add: ServeHTTP_duplicate reservation_def)
    next
      case diff: False
      show ?thesis
      proof (cases "next_Status e r = StatusOK")
        case True
        with assms dial Some diff show ?thesis
          by (simp add: ServeHTTP_handler_succeeded reservation_def)
      next
        case False
        with assms dial Some diff show ?thesis
          by (simp add: ServeHTTP_handler_failed reservation_def)
      qed
    qed
  qed
qed

lemma ServeHTTP_admitted_address_record:
  assumes "readAddress e r = Inr address"
      and "getClientIPFromRequest (proxyCount l) r = Inr clientIP"
      and "0 < ttl l"
      and "getItem c (now_limit_address e) address = None"
      and "getItem c (now_limit_clientIP e) clientIP = None"
  shows "cache (ServeHTTP l e r c) address =
           (if cache_Remove address \<in> set (trace (ServeHTTP l e r c)) then None
            else Some \<lparr>data = bool_value True,
                       expireAt = Some ((if address = clientIP then now_set_clientIP e
                                         else now_set_address e) + ttl l)\<rparr>)"
  using assms
  by (auto simp: ServeHTTP_def call_defs ttlcache_Remove_def ttlcache_SetWithTTL_def
      ttlcache_Set_def nonce_key_def Let_def split: option.splits if_splits)

lemma ServeHTTP_admitted_clientIP_record:
  assumes "readAddress e r = Inr address"
      and "getClientIPFromRequest (proxyCount l) r = Inr clientIP"
      and "0 < ttl l"
      and "getItem c (now_limit_address e) address = None"
      and "getItem c (now_limit_clientIP e) clientIP = None"
      and "clientIP \<noteq> nonce_key address"
  shows "cache (ServeHTTP l e r c) clientIP =
           (if cache_Remove clientIP \<in> set (trace (ServeHTTP l e r c)) then None
            else Some \<lparr>data = bool_value True, expireAt = Some (now_set_clientIP e + ttl l)\<rparr>)"
  using assms
  by (auto simp: ServeHTTP_def call_defs ttlcache_Remove_def ttlcache_SetWithTTL_def
      ttlcache_Set_def Let_def split: option.splits if_splits)

text \<open>
  C1. A request whose address parses, with a rate limit above zero. Under the lock the
  limiter looks up the address first and the client's address second. When the address
  holds a record that has not expired, the request is answered with 429 and a message
  that names the remaining time, rounded to seconds; the client's address is then not
  looked up. When only the client's address holds one, the answer is the same, with that
  record's remaining time. In both cases the store is as it was. Otherwise the limiter
  writes a record under each key, the value \<open>true\<close> expiring \<open>ttl\<close> after the write,
  and releases the lock: these are the first six calls of the request, so the next
  handler, if it is called, is called after them. The records are in the store the
  request leaves: under each of the two keys that store holds the record written, unless
  the request went on to remove that key (a duplicate claim, or a handler that failed).
  The whole outcome is given for each way the request can go on: the store after a failed
  connection or nonce query is the store with the two records, after a duplicate claim or
  a failed handler it is that store with the two keys removed, and after a successful
  handler it is that store with the nonce written.
\<close>

theorem admission_checks_then_reserves:
  assumes "readAddress e r = Inr address"
      and "getClientIPFromRequest (proxyCount l) r = Inr clientIP"
      and "0 < ttl l"
  shows "(\<forall>it. getItem c (now_limit_address e) address = Some it \<longrightarrow>
            ServeHTTP l e r c =
              \<lparr>cache = c,
               trace = [mutex_Lock, cache_GetWithTTL address,
                        rendered (''You have exceeded the rate limit. Please wait ''
                                  @ Duration_String (Duration_Round (remaining (now_limit_address e) it) Second)
                                  @ '' before you try again'') 429,
                        mutex_Unlock]\<rparr>)
       \<and> (\<forall>it. getItem c (now_limit_address e) address = None
                \<and> getItem c (now_limit_clientIP e) clientIP = Some it \<longrightarrow>
            ServeHTTP l e r c =
              \<lparr>cache = c,
               trace = [mutex_Lock, cache_GetWithTTL address, cache_GetWithTTL clientIP,
                        rendered (''You have exceeded the rate limit. Please wait ''
                                  @ Duration_String (Duration_Round (remaining (now_limit_clientIP e) it) Second)
                                  @ '' before you try again'') 429,
                        mutex_Unlock]\<rparr>)
       \<and> (getItem c (now_limit_address e) address = None
            \<and> getItem c (now_limit_clientIP e) clientIP = None \<longrightarrow>
            take 6 (trace (ServeHTTP l e r c)) =
              [mutex_Lock, cache_GetWithTTL address, cache_GetWithTTL clientIP,
               cache_SetWithTTL address (bool_value True) (ttl l),
               cache_SetWithTTL clientIP (bool_value True) (ttl l), mutex_Unlock]
            \<and> next_ServeHTTP \<notin> set (take 6 (trace (ServeHTTP l e r c)))
            \<and> cache (ServeHTTP l e r c) address =
                  (if cache_Remove address \<in> set (trace (ServeHTTP l e r c)) then None
                   else Some \<lparr>data = bool_value True,
                              expireAt = Some ((if address = clientIP then now_set_clientIP e
                                                else now_set_address e) + ttl l)\<rparr>)
            \<and> (clientIP \<noteq> nonce_key address \<longrightarrow>
                  cache (ServeHTTP l e r c) clientIP =
                    (if cache_Remove clientIP \<in> set (trace (ServeHTTP l e r c)) then None
                     else Some \<lparr>data = bool_value True,
                                expireAt = Some (now_set_clientIP e + ttl l)\<rparr>))
            \<and> reserved l e address clientIP c address
                = Some \<lparr>data = bool_value True,
                        expireAt = Some ((if address = clientIP then now_set_clientIP e
                                          else now_set_address e) + ttl l)\<rparr>
            \<and> reserved l e address clientIP c clientIP
                = Some \<lparr>data = bool_value True, expireAt = Some (now_set_clientIP e + ttl l)\<rparr>
            \<and> (\<forall>key. key \<noteq> address \<and> key \<noteq> clientIP \<longrightarrow>
                  reserved l e address clientIP c key = c key)
            \<and> (\<not> Dial e (provider l) \<longrightarrow>
                  ServeHTTP l e r c =
                    \<lparr>cache = reserved l e address clientIP c,
                     trace = reservation l address clientIP @ [ethclient_Dial (provider l)]\<rparr>)
            \<and> (Dial e (provider l) \<and> PendingNonceAt e address = None \<longrightarrow>
                  ServeHTTP l e r c =
                    \<lparr>cache = reserved l e address clientIP c,
                     trace = reservation l address clientIP
                             @ [ethclient_Dial (provider l), client_PendingNonceAt address]\<rparr>)
            \<and> (\<forall>toNonce. Dial e (provider l) \<and> PendingNonceAt e address = Some toNonce \<longrightarrow>
                  (ttlcache_Get (reserved l e address clientIP c) (now_get_nonce e) (nonce_key address)
                     = Some (uint64_value toNonce) \<longrightarrow>
                   ServeHTTP l e r c =
                     \<lparr>cache = ttlcache_Remove
                                (ttlcache_Remove (reserved l e address clientIP c) address) clientIP,
                      trace = reservation l address clientIP
                              @ [ethclient_Dial (provider l), client_PendingNonceAt address,
                                 cache_Get (nonce_key address),
                                 cache_Remove address, cache_Remove clientIP,
                                 rendered ''Please do not make repeated requests.'' 429]\<rparr>)
                \<and> (ttlcache_Get (reserved l e address clientIP c) (now_get_nonce e) (nonce_key address)
                     \<noteq> Some (uint64_value toNonce) \<and> next_Status e r \<noteq> 200 \<longrightarrow>
                   ServeHTTP l e r c =
                     \<lparr>cache = ttlcache_Remove
                                (ttlcache_Remove (reserved l e address clientIP c) address) clientIP,
                      trace = reservation l address clientIP
                              @ [ethclient_Dial (provider l), client_PendingNonceAt address,
                                 cache_Get (nonce_key address), next_ServeHTTP,
                                 cache_Remove address, cache_Remove clientIP]\<rparr>)
                \<and> (ttlcache_Get (reserved l e address clientIP c) (now_get_nonce e) (nonce_key address)
                     \<noteq> Some (uint64_value toNonce) \<and> next_Status e r = 200 \<longrightarrow>
                   ServeHTTP l e r c =
                     \<lparr>cache = ttlcache_Set (reserved l e address clientIP c) (nonce_key address)
                                (uint64_value toNonce),
                      trace = reservation l address clientIP
                              @ [ethclient_Dial (provider l), client_PendingNonceAt address,
                                 cache_Get (nonce_key address), next_ServeHTTP,
                                 cache_Set (nonce_key address) (uint64_value toNonce)]\<rparr>)))"
proof (intro conjI allI impI)
  fix it
  assume "getItem c (now_limit_address e) address = Some it"
  with assms show "ServeHTTP l e r c =
              \<lparr>cache = c,
               trace = [mutex_Lock, cache_GetWithTTL address,
                        rendered (''You have exceeded the rate limit. Please wait ''
                                  @ Duration_String (Duration_Round (remaining (now_limit_address e) it) Second)
                                  @ '' before you try again'') 429,
                        mutex_Unlock]\<rparr>"
    by (simp add: ServeHTTP_limited_address errMsg_def StatusTooManyRequests_def)
next
  fix it
  assume "getItem c (now_limit_address e) address = None
                \<and> getItem c (now_limit_clientIP e) clientIP = Some it"
  with assms show "ServeHTTP l e r c =
              \<lparr>cache = c,
               trace = [mutex_Lock, cache_GetWithTTL address, cache_GetWithTTL clientIP,
                        rendered (''You have exceeded the rate limit. Please wait ''
                                  @ Duration_String (Duration_Round (remaining (now_limit_clientIP e) it) Second)
                                  @ '' before you try again'') 429,
                        mutex_Unlock]\<rparr>"
    by (simp add: ServeHTTP_limited_clientIP errMsg_def StatusTooManyRequests_def)
next
  assume free: "getItem c (now_limit_address e) address = None
            \<and> getItem c (now_limit_clientIP e) clientIP = None"
  then have f1: "getItem c (now_limit_address e) address = None"
    and f2: "getItem c (now_limit_clientIP e) clientIP = None"
    by simp_all
  have pre: "take 6 (trace (ServeHTTP l e r c)) = reservation l address clientIP"
    using assms f1 f2 by (rule ServeHTTP_admitted_prefix)
  then show "take 6 (trace (ServeHTTP l e r c)) =
              [mutex_Lock, cache_GetWithTTL address, cache_GetWithTTL clientIP,
               cache_SetWithTTL address (bool_value True) (ttl l),
               cache_SetWithTTL clientIP (bool_value True) (ttl l), mutex_Unlock]"
    by (simp add: reservation_def)
  from pre show "next_ServeHTTP \<notin> set (take 6 (trace (ServeHTTP l e r c)))"
    by (simp add: reservation_def)
  show "cache (ServeHTTP l e r c) address =
                  (if cache_Remove address \<in> set (trace (ServeHTTP l e r c)) then None
                   else Some \<lparr>data = bool_value True,
                              expireAt = Some ((if address = clientIP then now_set_clientIP e
                                                else now_set_address e) + ttl l)\<rparr>)"
    using assms f1 f2 by (rule ServeHTTP_admitted_address_record)
  {
    assume "clientIP \<noteq> nonce_key address"
    with assms f1 f2 show "cache (ServeHTTP l e r c) clientIP =
                    (if cache_Remove clientIP \<in> set (trace (ServeHTTP l e r c)) then None
                     else Some \<lparr>data = bool_value True,
                                expireAt = Some (now_set_clientIP e + ttl l)\<rparr>)"
      by (rule ServeHTTP_admitted_clientIP_record)
  }
  show "reserved l e address clientIP c address
                = Some \<lparr>data = bool_value True,
                        expireAt = Some ((if address = clientIP then now_set_clientIP e
                                          else now_set_address e) + ttl l)\<rparr>"
    by (simp add: reserved_def ttlcache_SetWithTTL_def)
  show "reserved l e address clientIP c clientIP
                = Some \<lparr>data = bool_value True, expireAt = Some (now_set_clientIP e + ttl l)\<rparr>"
    by (simp add: reserved_def ttlcache_SetWithTTL_def)
  {
    fix key
    assume "key \<noteq> address \<and> key \<noteq> clientIP"
    then show "reserved l e address clientIP c key = c key"
      by (simp add: reserved_other)
  }
  {
    assume "\<not> Dial e (provider l)"
    then show "ServeHTTP l e r c =
                    \<lparr>cache = reserved l e address clientIP c,
                     trace = reservation l address clientIP @ [ethclient_Dial (provider l)]\<rparr>"
      using assms f1 f2 by (simp add: ServeHTTP_no_dial)
  }
  {
    assume "Dial e (provider l) \<and> PendingNonceAt e address = None"
    then show "ServeHTTP l e r c =
                    \<lparr>cache = reserved l e address clientIP c,
                     trace = reservation l address clientIP
                             @ [ethclient_Dial (provider l), client_PendingNonceAt address]\<rparr>"
      using assms f1 f2 by (simp add: ServeHTTP_no_nonce)
  }
  {
    fix toNonce
    assume led: "Dial e (provider l) \<and> PendingNonceAt e address = Some toNonce"
    then have d: "Dial e (provider l)" and n: "PendingNonceAt e address = Some toNonce"
      by simp_all
    {
      assume dup: "ttlcache_Get (reserved l e address clientIP c) (now_get_nonce e) (nonce_key address)
                     = Some (uint64_value toNonce)"
      from ServeHTTP_duplicate [OF assms f1 f2 d n dup]
      show "ServeHTTP l e r c =
                     \<lparr>cache = ttlcache_Remove
                                (ttlcache_Remove (reserved l e address clientIP c) address) clientIP,
                      trace = reservation l address clientIP
                              @ [ethclient_Dial (provider l), client_PendingNonceAt address,
                                 cache_Get (nonce_key address),
                                 cache_Remove address, cache_Remove clientIP,
                                 rendered ''Please do not make repeated requests.'' 429]\<rparr>"
        by (simp add: StatusTooManyRequests_def)
    }
    {
      assume a: "ttlcache_Get (reserved l e address clientIP c) (now_get_nonce e) (nonce_key address)
                     \<noteq> Some (uint64_value toNonce) \<and> next_Status e r \<noteq> 200"
      then have diff: "ttlcache_Get (reserved l e address clientIP c) (now_get_nonce e) (nonce_key address)
                     \<noteq> Some (uint64_value toNonce)"
        and st: "next_Status e r \<noteq> StatusOK"
        by (simp_all add: StatusOK_def)
      from ServeHTTP_handler_failed [OF assms f1 f2 d n diff st]
      show "ServeHTTP l e r c =
                     \<lparr>cache = ttlcache_Remove
                                (ttlcache_Remove (reserved l e address clientIP c) address) clientIP,
                      trace = reservation l address clientIP
                              @ [ethclient_Dial (provider l), client_PendingNonceAt address,
                                 cache_Get (nonce_key address), next_ServeHTTP,
                                 cache_Remove address, cache_Remove clientIP]\<rparr>"
        by simp
    }
    {
      assume a: "ttlcache_Get (reserved l e address clientIP c) (now_get_nonce e) (nonce_key address)
                     \<noteq> Some (uint64_value toNonce) \<and> next_Status e r = 200"
      then have diff: "ttlcache_Get (reserved l e address clientIP c) (now_get_nonce e) (nonce_key address)
                     \<noteq> Some (uint64_value toNonce)"
        and st: "next_Status e r = StatusOK"
        by (simp_all add: StatusOK_def)
      from ServeHTTP_handler_succeeded [OF assms f1 f2 d n diff st]
      show "ServeHTTP l e r c =
                     \<lparr>cache = ttlcache_Set (reserved l e address clientIP c) (nonce_key address)
                                (uint64_value toNonce),
                      trace = reservation l address clientIP
                              @ [ethclient_Dial (provider l), client_PendingNonceAt address,
                                 cache_Get (nonce_key address), next_ServeHTTP,
                                 cache_Set (nonce_key address) (uint64_value toNonce)]\<rparr>"
        by simp
    }
  }
qed

theorem admission_checks_then_reserves_witness:
  "ServeHTTP example_limiter example_env example_request limited_address_cache =
     \<lparr>cache = limited_address_cache,
      trace = [mutex_Lock, cache_GetWithTTL ''0xA'',
               rendered ''You have exceeded the rate limit. Please wait 42s before you try again'' 429,
               mutex_Unlock]\<rparr>
   \<and> ServeHTTP example_limiter example_env example_request limited_clientIP_cache =
     \<lparr>cache = limited_clientIP_cache,
      trace = [mutex_Lock, cache_GetWithTTL ''0xA'', cache_GetWithTTL ''2.2.2.2'',
               rendered ''You have exceeded the rate limit. Please wait 1m30s before you try again'' 429,
               mutex_Unlock]\<rparr>
   \<and> take 6 (trace (ServeHTTP example_limiter example_env example_request NewCache)) =
       [mutex_Lock, cache_GetWithTTL ''0xA'', cache_GetWithTTL ''2.2.2.2'',
        cache_SetWithTTL ''0xA'' (bool_value True) 60000000000,
        cache_SetWithTTL ''2.2.2.2'' (bool_value True) 60000000000, mutex_Unlock]
   \<and> trace (ServeHTTP example_limiter example_env example_request NewCache) =
       [mutex_Lock, cache_GetWithTTL ''0xA'', cache_GetWithTTL ''2.2.2.2'',
        cache_SetWithTTL ''0xA'' (bool_value True) 60000000000,
        cache_SetWithTTL ''2.2.2.2'' (bool_value True) 60000000000, mutex_Unlock,
        ethclient_Dial ''http://node'', client_PendingNonceAt ''0xA'', cache_Get ''nonce-0xA'',
        next_ServeHTTP, cache_Set ''nonce-0xA'' (uint64_value 5)]
   \<and> cache (ServeHTTP example_limiter example_env example_request NewCache) ''0xA''
       = Some \<lparr>data = bool_value True, expireAt = Some 60000000102\<rparr>
   \<and> cache (ServeHTTP example_limiter example_env example_request NewCache) ''2.2.2.2''
       = Some \<lparr>data = bool_value True, expireAt = Some 60000000103\<rparr>"
proof -
  note general = admission_checks_then_reserves [OF example_parse example_clientIP example_ttl]
  have a: "getItem limited_address_cache (now_limit_address example_env) ''0xA''
             = Some \<lparr>data = bool_value True, expireAt = Some 42000000100\<rparr>"
    by (simp add: limited_address_cache_def example_env_def getItem_def expired_def)
  have am: "Duration_String (Duration_Round (remaining (now_limit_address example_env)
             \<lparr>data = bool_value True, expireAt = Some 42000000100\<rparr>) Second) = ''42s''"
    by code_simp
  have b: "getItem limited_clientIP_cache (now_limit_address example_env) ''0xA'' = None
           \<and> getItem limited_clientIP_cache (now_limit_clientIP example_env) ''2.2.2.2''
               = Some \<lparr>data = bool_value True, expireAt = Some 90000000101\<rparr>"
    by (simp add: limited_clientIP_cache_def NewCache_def example_env_def getItem_def expired_def)
  have bm: "Duration_String (Duration_Round (remaining (now_limit_clientIP example_env)
             \<lparr>data = bool_value True, expireAt = Some 90000000101\<rparr>) Second) = ''1m30s''"
    by code_simp
  have c: "getItem NewCache (now_limit_address example_env) ''0xA'' = None
           \<and> getItem NewCache (now_limit_clientIP example_env) ''2.2.2.2'' = None"
    by (simp add: NewCache_def getItem_def)
  have led: "Dial example_env (provider example_limiter)
             \<and> PendingNonceAt example_env ''0xA'' = Some 5"
    by (simp add: example_env_def)
  have fresh: "ttlcache_Get (reserved example_limiter example_env ''0xA'' ''2.2.2.2'' NewCache)
                 (now_get_nonce example_env) (nonce_key ''0xA'') \<noteq> Some (uint64_value 5)
               \<and> next_Status example_env example_request = 200"
    by (simp add: reserved_def ttlcache_SetWithTTL_def NewCache_def ttlcache_Get_def getItem_def
        nonce_key_def example_env_def)
  have times: "now_set_address example_env = 102 \<and> now_set_clientIP example_env = 103"
    by (simp add: example_env_def)
  have prov: "provider example_limiter = ''http://node''"
    by (simp add: example_limiter_def)
  have keys: "''2.2.2.2'' \<noteq> nonce_key ''0xA''"
    by (simp add: nonce_key_def)
  from general [of limited_address_cache] a
  have 1: "ServeHTTP example_limiter example_env example_request limited_address_cache =
     \<lparr>cache = limited_address_cache,
      trace = [mutex_Lock, cache_GetWithTTL ''0xA'',
               rendered (''You have exceeded the rate limit. Please wait ''
                 @ Duration_String (Duration_Round (remaining (now_limit_address example_env)
                     \<lparr>data = bool_value True, expireAt = Some 42000000100\<rparr>) Second)
                 @ '' before you try again'') 429,
               mutex_Unlock]\<rparr>"
    by blast
  from general [of limited_clientIP_cache] b
  have 2: "ServeHTTP example_limiter example_env example_request limited_clientIP_cache =
     \<lparr>cache = limited_clientIP_cache,
      trace = [mutex_Lock, cache_GetWithTTL ''0xA'', cache_GetWithTTL ''2.2.2.2'',
               rendered (''You have exceeded the rate limit. Please wait ''
                 @ Duration_String (Duration_Round (remaining (now_limit_clientIP example_env)
                     \<lparr>data = bool_value True, expireAt = Some 90000000101\<rparr>) Second)
                 @ '' before you try again'') 429,
               mutex_Unlock]\<rparr>"
    by blast
  from general [of NewCache] c
  have 3: "take 6 (trace (ServeHTTP example_limiter example_env example_request NewCache)) =
       [mutex_Lock, cache_GetWithTTL ''0xA'', cache_GetWithTTL ''2.2.2.2'',
        cache_SetWithTTL ''0xA'' (bool_value True) (ttl example_limiter),
        cache_SetWithTTL ''2.2.2.2'' (bool_value True) (ttl example_limiter), mutex_Unlock]"
    by blast
  from general [of NewCache] c led fresh
  have run: "ServeHTTP example_limiter example_env example_request NewCache =
     \<lparr>cache = ttlcache_Set (reserved example_limiter example_env ''0xA'' ''2.2.2.2'' NewCache)
                (nonce_key ''0xA'') (uint64_value 5),
      trace = reservation example_limiter ''0xA'' ''2.2.2.2''
              @ [ethclient_Dial (provider example_limiter), client_PendingNonceAt ''0xA'',
                 cache_Get (nonce_key ''0xA''), next_ServeHTTP,
                 cache_Set (nonce_key ''0xA'') (uint64_value 5)]\<rparr>"
    by blast
  then have 4: "trace (ServeHTTP example_limiter example_env example_request NewCache) =
       [mutex_Lock, cache_GetWithTTL ''0xA'', cache_GetWithTTL ''2.2.2.2'',
        cache_SetWithTTL ''0xA'' (bool_value True) 60000000000,
        cache_SetWithTTL ''2.2.2.2'' (bool_value True) 60000000000, mutex_Unlock,
        ethclient_Dial ''http://node'', client_PendingNonceAt ''0xA'', cache_Get ''nonce-0xA'',
        next_ServeHTTP, cache_Set ''nonce-0xA'' (uint64_value 5)]"
    by (simp add: reservation_def example_ttl_value prov nonce_key_def)
  then have kept: "cache_Remove ''0xA''
                     \<notin> set (trace (ServeHTTP example_limiter example_env example_request NewCache))
                   \<and> cache_Remove ''2.2.2.2''
                     \<notin> set (trace (ServeHTTP example_limiter example_env example_request NewCache))"
    by simp
  from general [of NewCache] c keys
  have "cache (ServeHTTP example_limiter example_env example_request NewCache) ''0xA'' =
          (if cache_Remove ''0xA''
                \<in> set (trace (ServeHTTP example_limiter example_env example_request NewCache))
           then None
           else Some \<lparr>data = bool_value True,
                      expireAt = Some ((if ''0xA'' = ''2.2.2.2'' then now_set_clientIP example_env
                                        else now_set_address example_env) + ttl example_limiter)\<rparr>)
        \<and> cache (ServeHTTP example_limiter example_env example_request NewCache) ''2.2.2.2'' =
          (if cache_Remove ''2.2.2.2''
                \<in> set (trace (ServeHTTP example_limiter example_env example_request NewCache))
           then None
           else Some \<lparr>data = bool_value True,
                      expireAt = Some (now_set_clientIP example_env + ttl example_limiter)\<rparr>)"
    by blast
  with kept times
  have 5: "cache (ServeHTTP example_limiter example_env example_request NewCache) ''0xA''
             = Some \<lparr>data = bool_value True, expireAt = Some 60000000102\<rparr>
         \<and> cache (ServeHTTP example_limiter example_env example_request NewCache) ''2.2.2.2''
             = Some \<lparr>data = bool_value True, expireAt = Some 60000000103\<rparr>"
    by (simp add: example_ttl_value)
  from 1 2 3 4 5 show ?thesis
    by (simp add: am bm example_ttl_value)
qed

subsection \<open>A ledger that cannot be reached\<close>

text \<open>
  C7. A request admitted past the reservation whose ledger query fails, because the
  endpoint cannot be dialled or because the pending sequence number cannot be fetched.
  The limiter returns at once: it renders no response, calls no handler and removes
  nothing. The store it leaves is the store right after the reservation, with both
  records in it, and a lookup of either key finds its record at any moment before both
  have expired.
\<close>

theorem ledger_failure_keeps_reservation:
  assumes "readAddress e r = Inr address"
      and "getClientIPFromRequest (proxyCount l) r = Inr clientIP"
      and "0 < ttl l"
      and "getItem c (now_limit_address e) address = None"
      and "getItem c (now_limit_clientIP e) clientIP = None"
      and "\<not> Dial e (provider l) \<or> PendingNonceAt e address = None"
  shows "cache (ServeHTTP l e r c) = reserved l e address clientIP c
       \<and> trace (ServeHTTP l e r c) =
           reservation l address clientIP
           @ (if Dial e (provider l)
              then [ethclient_Dial (provider l), client_PendingNonceAt address]
              else [ethclient_Dial (provider l)])
       \<and> (\<forall>message status. rendered message status \<notin> set (trace (ServeHTTP l e r c)))
       \<and> next_ServeHTTP \<notin> set (trace (ServeHTTP l e r c))
       \<and> (\<forall>key. cache_Remove key \<notin> set (trace (ServeHTTP l e r c)))
       \<and> cache (ServeHTTP l e r c) address =
           Some \<lparr>data = bool_value True,
                 expireAt = Some ((if address = clientIP then now_set_clientIP e
                                   else now_set_address e) + ttl l)\<rparr>
       \<and> cache (ServeHTTP l e r c) clientIP =
           Some \<lparr>data = bool_value True, expireAt = Some (now_set_clientIP e + ttl l)\<rparr>
       \<and> (\<forall>now. now < now_set_address e + ttl l \<and> now < now_set_clientIP e + ttl l \<longrightarrow>
             ttlcache_GetWithTTL (cache (ServeHTTP l e r c)) now address \<noteq> None
             \<and> ttlcache_GetWithTTL (cache (ServeHTTP l e r c)) now clientIP \<noteq> None)"
proof -
  have run: "ServeHTTP l e r c =
      \<lparr>cache = reserved l e address clientIP c,
       trace = reservation l address clientIP
           @ (if Dial e (provider l)
              then [ethclient_Dial (provider l), client_PendingNonceAt address]
              else [ethclient_Dial (provider l)])\<rparr>"
  proof (cases "Dial e (provider l)")
    case True
    with assms have "PendingNonceAt e address = None" by simp
    with assms True show ?thesis by (simp add: ServeHTTP_no_nonce)
  next
    case False
    with assms show ?thesis by (simp add: ServeHTTP_no_dial)
  qed
  have blocked: "ttlcache_GetWithTTL (reserved l e address clientIP c) now address \<noteq> None
                 \<and> ttlcache_GetWithTTL (reserved l e address clientIP c) now clientIP \<noteq> None"
    if "now < now_set_address e + ttl l \<and> now < now_set_clientIP e + ttl l" for now
    using that
    by (simp add: ttlcache_GetWithTTL_def getItem_reserved_address getItem_reserved_clientIP)
  show ?thesis
    unfolding run
    using blocked
    by (simp add: reservation_def reserved_def ttlcache_SetWithTTL_def)
qed

theorem ledger_failure_keeps_reservation_witness:
  "trace (ServeHTTP example_limiter (example_env\<lparr>Dial := (\<lambda>url. False)\<rparr>) example_request NewCache) =
     [mutex_Lock, cache_GetWithTTL ''0xA'', cache_GetWithTTL ''2.2.2.2'',
      cache_SetWithTTL ''0xA'' (bool_value True) 60000000000,
      cache_SetWithTTL ''2.2.2.2'' (bool_value True) 60000000000, mutex_Unlock,
      ethclient_Dial ''http://node'']
   \<and> cache (ServeHTTP example_limiter (example_env\<lparr>Dial := (\<lambda>url. False)\<rparr>) example_request NewCache)
        ''0xA'' = Some \<lparr>data = bool_value True, expireAt = Some 60000000102\<rparr>
   \<and> cache (ServeHTTP example_limiter (example_env\<lparr>Dial := (\<lambda>url. False)\<rparr>) example_request NewCache)
        ''2.2.2.2'' = Some \<lparr>data = bool_value True, expireAt = Some 60000000103\<rparr>
   \<and> ttlcache_GetWithTTL
        (cache (ServeHTTP example_limiter (example_env\<lparr>Dial := (\<lambda>url. False)\<rparr>) example_request NewCache))
        1000000000 ''0xA'' \<noteq> None
   \<and> trace (ServeHTTP example_limiter (example_env\<lparr>PendingNonceAt := (\<lambda>a. None)\<rparr>) example_request NewCache) =
     [mutex_Lock, cache_GetWithTTL ''0xA'', cache_GetWithTTL ''2.2.2.2'',
      cache_SetWithTTL ''0xA'' (bool_value True) 60000000000,
      cache_SetWithTTL ''2.2.2.2'' (bool_value True) 60000000000, mutex_Unlock,
      ethclient_Dial ''http://node'', client_PendingNonceAt ''0xA'']"
proof -
  let ?down = "example_env\<lparr>Dial := (\<lambda>url. False)\<rparr>"
  let ?mute = "example_env\<lparr>PendingNonceAt := (\<lambda>a. None)\<rparr>"
  have free: "getItem NewCache now key = None" for now key
    by (simp add: NewCache_def getItem_def)
  have p1: "readAddress ?down example_request = Inr ''0xA''"
    by (simp add: example_env_def)
  have f1: "\<not> Dial ?down (provider example_limiter) \<or> PendingNonceAt ?down ''0xA'' = None"
    by simp
  have p2: "readAddress ?mute example_request = Inr ''0xA''"
    by (simp add: example_env_def)
  have f2: "\<not> Dial ?mute (provider example_limiter) \<or> PendingNonceAt ?mute ''0xA'' = None"
    by simp
  have d2: "Dial ?mute (provider example_limiter)"
    by (simp add: example_env_def)
  have times: "now_set_address ?down = 102 \<and> now_set_clientIP ?down = 103"
    by (simp add: example_env_def)
  have soon: "(1000000000::int) < now_set_address ?down + ttl example_limiter
              \<and> 1000000000 < now_set_clientIP ?down + ttl example_limiter"
    by (simp add: times example_ttl_value)
  note down = ledger_failure_keeps_reservation [OF p1 example_clientIP example_ttl free free f1]
  note mute = ledger_failure_keeps_reservation [OF p2 example_clientIP example_ttl free free f2]
  from down soon
  have 1: "ttlcache_GetWithTTL (cache (ServeHTTP example_limiter ?down example_request NewCache))
             1000000000 ''0xA'' \<noteq> None"
    by blast
  from down have 2: "trace (ServeHTTP example_limiter ?down example_request NewCache) =
      reservation example_limiter ''0xA'' ''2.2.2.2'' @ [ethclient_Dial (provider example_limiter)]"
    by simp
  from down
  have "cache (ServeHTTP example_limiter ?down example_request NewCache) ''0xA''
             = Some \<lparr>data = bool_value True,
                      expireAt = Some ((if ''0xA'' = ''2.2.2.2'' then now_set_clientIP ?down
                                        else now_set_address ?down) + ttl example_limiter)\<rparr>
         \<and> cache (ServeHTTP example_limiter ?down example_request NewCache) ''2.2.2.2''
             = Some \<lparr>data = bool_value True,
                      expireAt = Some (now_set_clientIP ?down + ttl example_limiter)\<rparr>"
    by blast
  with times
  have 3: "cache (ServeHTTP example_limiter ?down example_request NewCache) ''0xA''
             = Some \<lparr>data = bool_value True, expireAt = Some (102 + ttl example_limiter)\<rparr>
         \<and> cache (ServeHTTP example_limiter ?down example_request NewCache) ''2.2.2.2''
             = Some \<lparr>data = bool_value True, expireAt = Some (103 + ttl example_limiter)\<rparr>"
    by simp
  from mute d2 have 4: "trace (ServeHTTP example_limiter ?mute example_request NewCache) =
      reservation example_limiter ''0xA'' ''2.2.2.2''
      @ [ethclient_Dial (provider example_limiter), client_PendingNonceAt ''0xA'']"
    by simp
  have prov: "provider example_limiter = ''http://node''"
    by (simp add: example_limiter_def)
  from 1 2 3 4 show ?thesis
    by (simp add: reservation_def example_ttl_value prov)
qed

subsection \<open>Duplicate claims\<close>

lemma duplicate_is_no_collision:
  assumes "ttlcache_Get (reserved l e address clientIP c) now (nonce_key address)
             = Some (uint64_value toNonce)"
  shows "nonce_key address \<noteq> clientIP"
proof
  assume "nonce_key address = clientIP"
  with assms have "ttlcache_Get (reserved l e address clientIP c) now clientIP
                     = Some (uint64_value toNonce)"
    by simp
  then show False
    by (simp add: ttlcache_Get_def getItem_reserved_clientIP split: if_splits)
qed

text \<open>
  C2. A request admitted past the reservation whose ledger query succeeds with the
  pending sequence number \<open>toNonce\<close>. The limiter looks up the nonce record of the address
  in the store as the reservation left it. When the record is there and its value is that
  very number, the limiter removes the records of the address and of the client's
  address, answers 429 with the message about repeated requests and does not call the
  next handler. When there is no record, or its value is anything else, the next call is
  the handler and the limiter renders nothing. Unless the client's address is itself the
  nonce key, the reservation leaves the nonce record as it found it, so the lookup reads
  the record that was there before the request.
\<close>

theorem duplicate_claim_is_rejected:
  assumes "readAddress e r = Inr address"
      and "getClientIPFromRequest (proxyCount l) r = Inr clientIP"
      and "0 < ttl l"
      and "getItem c (now_limit_address e) address = None"
      and "getItem c (now_limit_clientIP e) clientIP = None"
      and "Dial e (provider l)"
      and "PendingNonceAt e address = Some toNonce"
  shows "(ttlcache_Get (reserved l e address clientIP c) (now_get_nonce e) (nonce_key address)
            = Some (uint64_value toNonce) \<longrightarrow>
            trace (ServeHTTP l e r c) =
              reservation l address clientIP
              @ [ethclient_Dial (provider l), client_PendingNonceAt address,
                 cache_Get (nonce_key address), cache_Remove address, cache_Remove clientIP,
                 rendered ''Please do not make repeated requests.'' 429]
            \<and> next_ServeHTTP \<notin> set (trace (ServeHTTP l e r c))
            \<and> cache (ServeHTTP l e r c) address = None
            \<and> cache (ServeHTTP l e r c) clientIP = None)
       \<and> (ttlcache_Get (reserved l e address clientIP c) (now_get_nonce e) (nonce_key address)
            \<noteq> Some (uint64_value toNonce) \<longrightarrow>
            take 10 (trace (ServeHTTP l e r c)) =
              reservation l address clientIP
              @ [ethclient_Dial (provider l), client_PendingNonceAt address,
                 cache_Get (nonce_key address), next_ServeHTTP]
            \<and> (\<forall>message status. rendered message status \<notin> set (trace (ServeHTTP l e r c))))
       \<and> (nonce_key address \<noteq> clientIP \<longrightarrow>
            ttlcache_Get (reserved l e address clientIP c) (now_get_nonce e) (nonce_key address)
              = ttlcache_Get c (now_get_nonce e) (nonce_key address))"
proof (intro conjI impI)
  assume dup: "ttlcache_Get (reserved l e address clientIP c) (now_get_nonce e) (nonce_key address)
            = Some (uint64_value toNonce)"
  note run = ServeHTTP_duplicate [OF assms dup]
  show "trace (ServeHTTP l e r c) =
              reservation l address clientIP
              @ [ethclient_Dial (provider l), client_PendingNonceAt address,
                 cache_Get (nonce_key address), cache_Remove address, cache_Remove clientIP,
                 rendered ''Please do not make repeated requests.'' 429]"
    by (simp add: run StatusTooManyRequests_def)
  show "next_ServeHTTP \<notin> set (trace (ServeHTTP l e r c))"
    by (simp add: run reservation_def)
  show "cache (ServeHTTP l e r c) address = None"
    by (simp add: run ttlcache_Remove_def)
  show "cache (ServeHTTP l e r c) clientIP = None"
    by (simp add: run ttlcache_Remove_def)
next
  assume diff: "ttlcache_Get (reserved l e address clientIP c) (now_get_nonce e) (nonce_key address)
            \<noteq> Some (uint64_value toNonce)"
  show "take 10 (trace (ServeHTTP l e r c)) =
              reservation l address clientIP
              @ [ethclient_Dial (provider l), client_PendingNonceAt address,
                 cache_Get (nonce_key address), next_ServeHTTP]"
  proof (cases "next_Status e r = StatusOK")
    case True
    from ServeHTTP_handler_succeeded [OF assms diff True] show ?thesis
      by (simp add: reservation_def)
  next
    case False
    from ServeHTTP_handler_failed [OF assms diff False] show ?thesis
      by (simp add: reservation_def)
  qed
  show "\<forall>message status. rendered message status \<notin> set (trace (ServeHTTP l e r c))"
  proof (cases "next_Status e r = StatusOK")
    case True
    from ServeHTTP_handler_succeeded [OF assms diff True] show ?thesis
      by (simp add: reservation_def)
  next
    case False
    from ServeHTTP_handler_failed [OF assms diff False] show ?thesis
      by (simp add: reservation_def)
  qed
next
  assume "nonce_key address \<noteq> clientIP"
  then show "ttlcache_Get (reserved l e address clientIP c) (now_get_nonce e) (nonce_key address)
              = ttlcache_Get c (now_get_nonce e) (nonce_key address)"
    by (simp add: ttlcache_Get_def getItem_def reserved_other nonce_key_neq)
qed

lemma duplicate_cache_free:
  "getItem duplicate_cache now ''0xA'' = None \<and> getItem duplicate_cache now ''2.2.2.2'' = None"
  by (simp add: duplicate_cache_def NewCache_def getItem_def)

lemma duplicate_cache_nonce:
  "ttlcache_Get (reserved l e ''0xA'' ''2.2.2.2'' duplicate_cache) now (nonce_key ''0xA'')
     = Some (uint64_value 5)"
  by (simp add: reserved_def ttlcache_SetWithTTL_def duplicate_cache_def NewCache_def
      ttlcache_Get_def getItem_def expired_def nonce_key_def)

theorem duplicate_claim_is_rejected_witness:
  "trace (ServeHTTP example_limiter example_env example_request duplicate_cache) =
     [mutex_Lock, cache_GetWithTTL ''0xA'', cache_GetWithTTL ''2.2.2.2'',
      cache_SetWithTTL ''0xA'' (bool_value True) 60000000000,
      cache_SetWithTTL ''2.2.2.2'' (bool_value True) 60000000000, mutex_Unlock,
      ethclient_Dial ''http://node'', client_PendingNonceAt ''0xA'', cache_Get ''nonce-0xA'',
      cache_Remove ''0xA'', cache_Remove ''2.2.2.2'',
      rendered ''Please do not make repeated requests.'' 429]
   \<and> cache (ServeHTTP example_limiter example_env example_request duplicate_cache) ''0xA'' = None
   \<and> cache (ServeHTTP example_limiter example_env example_request duplicate_cache) ''2.2.2.2'' = None
   \<and> take 10 (trace (ServeHTTP example_limiter (example_env\<lparr>PendingNonceAt := (\<lambda>a. Some 6)\<rparr>)
                       example_request duplicate_cache)) =
     [mutex_Lock, cache_GetWithTTL ''0xA'', cache_GetWithTTL ''2.2.2.2'',
      cache_SetWithTTL ''0xA'' (bool_value True) 60000000000,
      cache_SetWithTTL ''2.2.2.2'' (bool_value True) 60000000000, mutex_Unlock,
      ethclient_Dial ''http://node'', client_PendingNonceAt ''0xA'', cache_Get ''nonce-0xA'',
      next_ServeHTTP]"
proof -
  let ?six = "example_env\<lparr>PendingNonceAt := (\<lambda>a. Some 6)\<rparr>"
  have f1: "getItem duplicate_cache (now_limit_address example_env) ''0xA'' = None"
    and f2: "getItem duplicate_cache (now_limit_clientIP example_env) ''2.2.2.2'' = None"
    and g1: "getItem duplicate_cache (now_limit_address ?six) ''0xA'' = None"
    and g2: "getItem duplicate_cache (now_limit_clientIP ?six) ''2.2.2.2'' = None"
    by (simp_all add: duplicate_cache_free)
  have d: "Dial example_env (provider example_limiter)"
    and n: "PendingNonceAt example_env ''0xA'' = Some 5"
    by (simp_all add: example_env_def)
  have p6: "readAddress ?six example_request = Inr ''0xA''"
    and d6: "Dial ?six (provider example_limiter)"
    and n6: "PendingNonceAt ?six ''0xA'' = Some 6"
    by (simp_all add: example_env_def)
  have same: "ttlcache_Get (reserved example_limiter example_env ''0xA'' ''2.2.2.2'' duplicate_cache)
                (now_get_nonce example_env) (nonce_key ''0xA'') = Some (uint64_value 5)"
    by (rule duplicate_cache_nonce)
  have other: "ttlcache_Get (reserved example_limiter ?six ''0xA'' ''2.2.2.2'' duplicate_cache)
                (now_get_nonce ?six) (nonce_key ''0xA'') \<noteq> Some (uint64_value 6)"
    by (simp add: duplicate_cache_nonce)
  have prov: "provider example_limiter = ''http://node''"
    by (simp add: example_limiter_def)
  from duplicate_claim_is_rejected [OF example_parse example_clientIP example_ttl f1 f2 d n] same
  have 1: "trace (ServeHTTP example_limiter example_env example_request duplicate_cache) =
              reservation example_limiter ''0xA'' ''2.2.2.2''
              @ [ethclient_Dial (provider example_limiter), client_PendingNonceAt ''0xA'',
                 cache_Get (nonce_key ''0xA''), cache_Remove ''0xA'', cache_Remove ''2.2.2.2'',
                 rendered ''Please do not make repeated requests.'' 429]
         \<and> cache (ServeHTTP example_limiter example_env example_request duplicate_cache) ''0xA'' = None
         \<and> cache (ServeHTTP example_limiter example_env example_request duplicate_cache) ''2.2.2.2'' = None"
    by blast
  from duplicate_claim_is_rejected [OF p6 example_clientIP example_ttl g1 g2 d6 n6] other
  have 2: "take 10 (trace (ServeHTTP example_limiter ?six example_request duplicate_cache)) =
              reservation example_limiter ''0xA'' ''2.2.2.2''
              @ [ethclient_Dial (provider example_limiter), client_PendingNonceAt ''0xA'',
                 cache_Get (nonce_key ''0xA''), next_ServeHTTP]"
    by blast
  from 1 2 show ?thesis
    by (simp add: reservation_def example_ttl_value prov nonce_key_def)
qed

subsection \<open>The nonce record after a duplicate\<close>

text \<open>
  The store holds the nonce record 5 for the address \<open>0xA\<close> and the ledger reports the
  pending sequence number 5: the request is flagged as a duplicate, and the nonce record
  is still in the store afterwards. So a duplicate does not delete the nonce record.
\<close>

theorem duplicate_keeps_nonce_record_counterexample:
  "trace (ServeHTTP example_limiter example_env example_request duplicate_cache) =
     [mutex_Lock, cache_GetWithTTL ''0xA'', cache_GetWithTTL ''2.2.2.2'',
      cache_SetWithTTL ''0xA'' (bool_value True) 60000000000,
      cache_SetWithTTL ''2.2.2.2'' (bool_value True) 60000000000, mutex_Unlock,
      ethclient_Dial ''http://node'', client_PendingNonceAt ''0xA'', cache_Get ''nonce-0xA'',
      cache_Remove ''0xA'', cache_Remove ''2.2.2.2'',
      rendered ''Please do not make repeated requests.'' 429]
   \<and> duplicate_cache ''nonce-0xA'' = Some \<lparr>data = uint64_value 5, expireAt = None\<rparr>
   \<and> PendingNonceAt example_env ''0xA'' = Some 5
   \<and> cache (ServeHTTP example_limiter example_env example_request duplicate_cache) ''nonce-0xA''
       = Some \<lparr>data = uint64_value 5, expireAt = None\<rparr>"
proof -
  have f1: "getItem duplicate_cache (now_limit_address example_env) ''0xA'' = None"
    and f2: "getItem duplicate_cache (now_limit_clientIP example_env) ''2.2.2.2'' = None"
    by (simp_all add: duplicate_cache_free)
  have d: "Dial example_env (provider example_limiter)"
    and n: "PendingNonceAt example_env ''0xA'' = Some 5"
    by (simp_all add: example_env_def)
  have same: "ttlcache_Get (reserved example_limiter example_env ''0xA'' ''2.2.2.2'' duplicate_cache)
                (now_get_nonce example_env) (nonce_key ''0xA'') = Some (uint64_value 5)"
    by (rule duplicate_cache_nonce)
  have prov: "provider example_limiter = ''http://node''"
    by (simp add: example_limiter_def)
  have kept: "ttlcache_Remove
                (ttlcache_Remove (reserved example_limiter example_env ''0xA'' ''2.2.2.2'' duplicate_cache)
                   ''0xA'') ''2.2.2.2'' ''nonce-0xA''
              = Some \<lparr>data = uint64_value 5, expireAt = None\<rparr>"
    by (simp add: ttlcache_Remove_def reserved_def ttlcache_SetWithTTL_def duplicate_cache_def NewCache_def)
  have stored: "duplicate_cache ''nonce-0xA'' = Some \<lparr>data = uint64_value 5, expireAt = None\<rparr>"
    by (simp add: duplicate_cache_def)
  from ServeHTTP_duplicate [OF example_parse example_clientIP example_ttl f1 f2 d n same]
  show ?thesis
    by (simp add: reservation_def example_ttl_value prov nonce_key_def kept stored n
        StatusTooManyRequests_def)
qed

text \<open>
  C6, as the code has it. When a duplicate claim is detected, the limiter removes the
  records of the address and of the client's address and nothing else: the nonce record
  of the address stays in the store as it was, with the sequence number that matched.
  (\<open>Limiter\<close> calls \<open>Remove\<close> on rate-limit keys only; a nonce record is only ever
  overwritten.)
\<close>

theorem duplicate_keeps_nonce_record:
  assumes "readAddress e r = Inr address"
      and "getClientIPFromRequest (proxyCount l) r = Inr clientIP"
      and "0 < ttl l"
      and "getItem c (now_limit_address e) address = None"
      and "getItem c (now_limit_clientIP e) clientIP = None"
      and "Dial e (provider l)"
      and "PendingNonceAt e address = Some toNonce"
      and "ttlcache_Get (reserved l e address clientIP c) (now_get_nonce e) (nonce_key address)
             = Some (uint64_value toNonce)"
  shows "cache (ServeHTTP l e r c) (nonce_key address) = c (nonce_key address)
       \<and> (\<exists>it. c (nonce_key address) = Some it \<and> data it = uint64_value toNonce)
       \<and> cache_Remove (nonce_key address) \<notin> set (trace (ServeHTTP l e r c))
       \<and> [k. cache_Remove k \<leftarrow> trace (ServeHTTP l e r c)] = [address, clientIP]"
proof -
  note run = ServeHTTP_duplicate [OF assms]
  have ip: "nonce_key address \<noteq> clientIP"
    using assms(8) by (rule duplicate_is_no_collision)
  have ad: "nonce_key address \<noteq> address"
    by (rule nonce_key_neq)
  have res: "reserved l e address clientIP c (nonce_key address) = c (nonce_key address)"
    using ad ip by (rule reserved_other)
  have 1: "cache (ServeHTTP l e r c) (nonce_key address) = c (nonce_key address)"
    using ad ip by (simp add: run ttlcache_Remove_def res)
  have 2: "\<exists>it. c (nonce_key address) = Some it \<and> data it = uint64_value toNonce"
    using assms(8) by (auto simp: ttlcache_Get_def getItem_def res split: option.splits if_splits)
  have 3: "cache_Remove (nonce_key address) \<notin> set (trace (ServeHTTP l e r c))"
    using ad ip by (simp add: run reservation_def)
  have 4: "[k. cache_Remove k \<leftarrow> trace (ServeHTTP l e r c)] = [address, clientIP]"
    by (simp add: run reservation_def)
  from 1 2 3 4 show ?thesis by blast
qed

theorem duplicate_keeps_nonce_record_witness:
  "cache (ServeHTTP example_limiter example_env example_request duplicate_cache) (nonce_key ''0xA'')
     = duplicate_cache (nonce_key ''0xA'')
   \<and> duplicate_cache (nonce_key ''0xA'') = Some \<lparr>data = uint64_value 5, expireAt = None\<rparr>
   \<and> cache_Remove (nonce_key ''0xA'')
       \<notin> set (trace (ServeHTTP example_limiter example_env example_request duplicate_cache))
   \<and> [k. cache_Remove k \<leftarrow> trace (ServeHTTP example_limiter example_env example_request duplicate_cache)]
       = [''0xA'', ''2.2.2.2'']"
proof -
  have f1: "getItem duplicate_cache (now_limit_address example_env) ''0xA'' = None"
    and f2: "getItem duplicate_cache (now_limit_clientIP example_env) ''2.2.2.2'' = None"
    by (simp_all add: duplicate_cache_free)
  have d: "Dial example_env (provider example_limiter)"
    and n: "PendingNonceAt example_env ''0xA'' = Some 5"
    by (simp_all add: example_env_def)
  have same: "ttlcache_Get (reserved example_limiter example_env ''0xA'' ''2.2.2.2'' duplicate_cache)
                (now_get_nonce example_env) (nonce_key ''0xA'') = Some (uint64_value 5)"
    by (rule duplicate_cache_nonce)
  have stored: "duplicate_cache (nonce_key ''0xA'') = Some \<lparr>data = uint64_value 5, expireAt = None\<rparr>"
    by (simp add: duplicate_cache_def nonce_key_def)
  from duplicate_keeps_nonce_record [OF example_parse example_clientIP example_ttl f1 f2 d n same] stored
  show ?thesis
    by blast
qed

subsection \<open>Rollback when the handler fails\<close>

lemma handler_failure_rolls_back_limited:
  assumes "readAddress e r = Inr address"
      and "getClientIPFromRequest (proxyCount l) r = Inr clientIP"
      and "0 < ttl l"
      and "next_ServeHTTP \<in> set (trace (ServeHTTP l e r c))"
      and "next_Status e r \<noteq> StatusOK"
  shows "cache (ServeHTTP l e r c) address = None \<and> cache (ServeHTTP l e r c) clientIP = None"
  using assms
  by (auto simp: ServeHTTP_def call_defs ttlcache_Remove_def Let_def split: option.splits if_splits)

text \<open>
  C3. A request for which the limiter calls the next handler and the handler leaves a
  status other than 200. Afterwards the store holds no record under the address and none
  under the client's address, so a lookup of either key finds nothing at any moment,
  whatever the store held before the request. This holds for every store when the rate
  limit is above zero; with the limiter disabled it holds for every store the limiter
  can have reached from the empty store of \<open>NewLimiter\<close>, which is the empty store
  itself.
\<close>

theorem handler_failure_rolls_back:
  assumes "0 < ttl l \<or> c = served l history NewCache"
      and "readAddress e r = Inr address"
      and "getClientIPFromRequest (proxyCount l) r = Inr clientIP"
      and "next_ServeHTTP \<in> set (trace (ServeHTTP l e r c))"
      and "next_Status e r \<noteq> StatusOK"
  shows "cache (ServeHTTP l e r c) address = None
       \<and> cache (ServeHTTP l e r c) clientIP = None
       \<and> (\<forall>now. ttlcache_GetWithTTL (cache (ServeHTTP l e r c)) now address = None
                \<and> ttlcache_GetWithTTL (cache (ServeHTTP l e r c)) now clientIP = None)"
proof -
  have gone: "cache (ServeHTTP l e r c) address = None \<and> cache (ServeHTTP l e r c) clientIP = None"
  proof (cases "0 < ttl l")
    case True
    with assms show ?thesis
      by (simp add: handler_failure_rolls_back_limited)
  next
    case False
    then have off: "ttl l \<le> 0" by simp
    with assms(1) have "c = served l history NewCache" by simp
    with off have "c = NewCache"
      by (simp add: served_disabled)
    moreover have "cache (ServeHTTP l e r c) = c"
      using off by (rule ServeHTTP_disabled_cache)
    ultimately show ?thesis
      by (simp add: NewCache_def)
  qed
  then show ?thesis
    by (simp add: ttlcache_GetWithTTL_def getItem_def)
qed

theorem handler_failure_rolls_back_witness:
  "next_ServeHTTP \<in> set (trace (ServeHTTP example_limiter
      (example_env\<lparr>next_Status := (\<lambda>r. 500), now_limit_address := 50000000000\<rparr>)
      example_request limited_address_cache))
   \<and> limited_address_cache ''0xA'' = Some \<lparr>data = bool_value True, expireAt = Some 42000000100\<rparr>
   \<and> cache (ServeHTTP example_limiter
        (example_env\<lparr>next_Status := (\<lambda>r. 500), now_limit_address := 50000000000\<rparr>)
        example_request limited_address_cache) ''0xA'' = None
   \<and> cache (ServeHTTP example_limiter
        (example_env\<lparr>next_Status := (\<lambda>r. 500), now_limit_address := 50000000000\<rparr>)
        example_request limited_address_cache) ''2.2.2.2'' = None
   \<and> cache (ServeHTTP (example_limiter\<lparr>ttl := 0\<rparr>) (example_env\<lparr>next_Status := (\<lambda>r. 500)\<rparr>)
        example_request
        (served (example_limiter\<lparr>ttl := 0\<rparr>) [(example_env, example_request)] NewCache)) ''0xA'' = None"
proof -
  let ?late = "example_env\<lparr>next_Status := (\<lambda>r. 500), now_limit_address := 50000000000\<rparr>"
  let ?fail = "example_env\<lparr>next_Status := (\<lambda>r. 500)\<rparr>"
  let ?off = "example_limiter\<lparr>ttl := 0\<rparr>"
  have p: "readAddress ?late example_request = Inr ''0xA''"
    and d: "Dial ?late (provider example_limiter)"
    and n: "PendingNonceAt ?late ''0xA'' = Some 5"
    and st: "next_Status ?late example_request \<noteq> StatusOK"
    by (simp_all add: example_env_def StatusOK_def)
  have f1: "getItem limited_address_cache (now_limit_address ?late) ''0xA'' = None"
    by (simp add: limited_address_cache_def getItem_def expired_def)
  have f2: "getItem limited_address_cache (now_limit_clientIP ?late) ''2.2.2.2'' = None"
    by (simp add: limited_address_cache_def NewCache_def getItem_def)
  have diff: "ttlcache_Get (reserved example_limiter ?late ''0xA'' ''2.2.2.2'' limited_address_cache)
                (now_get_nonce ?late) (nonce_key ''0xA'') \<noteq> Some (uint64_value 5)"
    by (simp add: reserved_def ttlcache_SetWithTTL_def limited_address_cache_def NewCache_def
        ttlcache_Get_def getItem_def nonce_key_def)
  have called: "next_ServeHTTP \<in> set (trace (ServeHTTP example_limiter ?late example_request
                  limited_address_cache))"
    by (simp add: ServeHTTP_handler_failed [OF p example_clientIP example_ttl f1 f2 d n diff st])
  have before: "limited_address_cache ''0xA'' = Some \<lparr>data = bool_value True, expireAt = Some 42000000100\<rparr>"
    by (simp add: limited_address_cache_def)
  have on: "0 < ttl example_limiter
            \<or> limited_address_cache = served example_limiter [] NewCache"
    by (simp add: example_ttl)
  note enabled = handler_failure_rolls_back [OF on p example_clientIP called st]
  have poff: "readAddress ?fail example_request = Inr ''0xA''"
    and stoff: "next_Status ?fail example_request \<noteq> StatusOK"
    by (simp_all add: example_env_def StatusOK_def)
  have ipoff: "getClientIPFromRequest (proxyCount ?off) example_request = Inr ''2.2.2.2''"
    using example_clientIP by simp
  have calledoff: "next_ServeHTTP \<in> set (trace (ServeHTTP ?off ?fail example_request
       (served ?off [(example_env, example_request)] NewCache)))"
    by (simp add: ServeHTTP_disabled [OF poff])
  have reach: "0 < ttl ?off
     \<or> served ?off [(example_env, example_request)] NewCache
         = served ?off [(example_env, example_request)] NewCache"
    by simp
  note disabled = handler_failure_rolls_back [OF reach poff ipoff calledoff stoff]
  from called before enabled disabled show ?thesis
    by blast
qed

subsection \<open>Writing the nonce record\<close>






subsection \<open>What the captcha gate lets through\<close>

text \<open>
  C8. With an empty secret the gate passes every request to the next handler and calls
  nothing else, whatever the request's token. With a secret, the gate asks the verifier
  about the token; the next handler is called exactly when the verifier reports success.
  When it reports failure, the gate answers 429 with the message
  \<open>Captcha verification failed, please try again\<close> and does not call the handler.
\<close>

theorem captcha_gate:
  "(secret c = '''' \<longrightarrow> Captcha_ServeHTTP c e r = [next_ServeHTTP])
   \<and> (secret c \<noteq> '''' \<longrightarrow>
        (next_ServeHTTP \<in> set (Captcha_ServeHTTP c e r)
           \<longleftrightarrow> VerifyToken e (Header_Get (Header r) ''H-Captcha-Response''))
        \<and> (VerifyToken e (Header_Get (Header r) ''H-Captcha-Response'') \<longrightarrow>
              Captcha_ServeHTTP c e r =
                [hcaptcha_VerifyToken (Header_Get (Header r) ''H-Captcha-Response''),
                 next_ServeHTTP])
        \<and> (\<not> VerifyToken e (Header_Get (Header r) ''H-Captcha-Response'') \<longrightarrow>
              Captcha_ServeHTTP c e r =
                [hcaptcha_VerifyToken (Header_Get (Header r) ''H-Captcha-Response''),
                 rendered ''Captcha verification failed, please try again'' 429]))"
  by (simp add: Captcha_ServeHTTP_def Let_def StatusTooManyRequests_def)

theorem captcha_gate_witness:
  "Captcha_ServeHTTP \<lparr>secret = ''''\<rparr> example_env
     (example_request\<lparr>Header := [''H-Captcha-Response'' \<mapsto> [''any token'']]\<rparr>) = [next_ServeHTTP]
   \<and> Captcha_ServeHTTP \<lparr>secret = ''0x0'' \<rparr> example_env
     (example_request\<lparr>Header := [''H-Captcha-Response'' \<mapsto> [''bad token'']]\<rparr>)
       = [hcaptcha_VerifyToken ''bad token'',
          rendered ''Captcha verification failed, please try again'' 429]
   \<and> Captcha_ServeHTTP \<lparr>secret = ''0x0'' \<rparr> (example_env\<lparr>VerifyToken := (\<lambda>token. token = ''good token'')\<rparr>)
     (example_request\<lparr>Header := [''H-Captcha-Response'' \<mapsto> [''good token'']]\<rparr>)
       = [hcaptcha_VerifyToken ''good token'', next_ServeHTTP]"
proof -
  let ?any = "example_request\<lparr>Header := [''H-Captcha-Response'' \<mapsto> [''any token'']]\<rparr>"
  let ?bad = "example_request\<lparr>Header := [''H-Captcha-Response'' \<mapsto> [''bad token'']]\<rparr>"
  let ?good = "example_request\<lparr>Header := [''H-Captcha-Response'' \<mapsto> [''good token'']]\<rparr>"
  let ?judge = "example_env\<lparr>VerifyToken := (\<lambda>token. token = ''good token'')\<rparr>"
  have tb: "Header_Get (Header ?bad) ''H-Captcha-Response'' = ''bad token''"
    and tg: "Header_Get (Header ?good) ''H-Captcha-Response'' = ''good token''"
    by (simp_all add: Header_Get_def)
  have "secret \<lparr>secret = ''''\<rparr> = ''''"
    by simp
  with captcha_gate [of "\<lparr>secret = ''''\<rparr>" example_env ?any]
  have 1: "Captcha_ServeHTTP \<lparr>secret = ''''\<rparr> example_env ?any = [next_ServeHTTP]"
    by blast
  have "secret \<lparr>secret = ''0x0''\<rparr> \<noteq> ''''
        \<and> \<not> VerifyToken example_env (Header_Get (Header ?bad) ''H-Captcha-Response'')"
    by (simp add: example_env_def)
  with captcha_gate [of "\<lparr>secret = ''0x0''\<rparr>" example_env ?bad]
  have "Captcha_ServeHTTP \<lparr>secret = ''0x0''\<rparr> example_env ?bad
       = [hcaptcha_VerifyToken (Header_Get (Header ?bad) ''H-Captcha-Response''),
          rendered ''Captcha verification failed, please try again'' 429]"
    by blast
  then have 2: "Captcha_ServeHTTP \<lparr>secret = ''0x0''\<rparr> example_env ?bad
       = [hcaptcha_VerifyToken ''bad token'',
          rendered ''Captcha verification failed, please try again'' 429]"
    by (simp only: tb)
  have "secret \<lparr>secret = ''0x0''\<rparr> \<noteq> ''''
        \<and> VerifyToken ?judge (Header_Get (Header ?good) ''H-Captcha-Response'')"
    by (simp add: Header_Get_def)
  with captcha_gate [of "\<lparr>secret = ''0x0''\<rparr>" ?judge ?good]
  have "Captcha_ServeHTTP \<lparr>secret = ''0x0''\<rparr> ?judge ?good
       = [hcaptcha_VerifyToken (Header_Get (Header ?good) ''H-Captcha-Response''), next_ServeHTTP]"
    by blast
  then have 3: "Captcha_ServeHTTP \<lparr>secret = ''0x0''\<rparr> ?judge ?good
       = [hcaptcha_VerifyToken ''good token'', next_ServeHTTP]"
    by (simp only: tg)
  from 1 2 3 show ?thesis
    by blast
qed

end
